theory Spec2Isabelle
  imports Main "HOL-Library.Word"
begin

section \<open>Go values shared by the packages\<close>

text \<open>
  A Go \<open>string\<close> is a sequence of bytes and \<open>len\<close> counts bytes; \<open>string\<close> (a list of
  8-bit characters) is the same thing, and \<open>length\<close> is Go's \<open>len\<close>.

  A Go \<open>map[string]T\<close> read with \<open>m[k]\<close> and the comma-ok form is a partial function; a
  \<open>nil\<close> map reads like the empty one, so both are \<open>Map.empty\<close>. Where the code tests a map
  argument against \<open>nil\<close> (the \<open>headers\<close> argument of the response builders) the argument is
  an \<open>option\<close> and \<open>None\<close> is \<open>nil\<close>. Where the code ranges over a map (\<open>convertMap\<close>,
  \<open>addToContext\<close>) the map is given by the list of its entries in the order of the iteration,
  which Go leaves unspecified: the theorems hold for every order.
\<close>

subsection \<open>strconv.Itoa and the \<open>%d\<close> verb\<close>

definition digit :: "nat \<Rightarrow> char" where
  "digit n = ''0123456789'' ! (n mod 10)"

fun natstr :: "nat \<Rightarrow> string" where
  "natstr n = (if n < 10 then [digit n] else natstr (n div 10) @ [digit n])"

declare natstr.simps [simp del]

definition Itoa :: "int \<Rightarrow> string" where
  "Itoa i = (if i < 0 then CHR ''-'' # natstr (nat (- i)) else natstr (nat i))"

section \<open>Package lcom: LambdaParams and the parameter resolver\<close>

record LambdaParams =
  IDPath :: string
  IDQuery :: string
  UserIDBody :: string
  UserIDPath :: string
  UserIDQuery :: string
  UserTypeBody :: string
  UserTypePath :: string
  UserTypeQuery :: string

text \<open>
  The \<open>range\<close> loop of \<open>chooseLongest\<close>: the arguments still to visit, the current index, and
  the two loop variables \<open>longestIndex\<close> and \<open>longestLength\<close> (Go \<open>int\<close>s, both starting at -1).
\<close>

fun chooseLongest_loop :: "string list \<Rightarrow> int \<Rightarrow> int \<Rightarrow> int \<Rightarrow> int \<times> int" where
  "chooseLongest_loop [] currentIndex longestIndex longestLength = (longestIndex, longestLength)"
| "chooseLongest_loop (currentString # rest) currentIndex longestIndex longestLength =
     (let currentLength = int (length currentString)
      in if currentLength > longestLength
         then chooseLongest_loop rest (currentIndex + 1) currentIndex currentLength
         else chooseLongest_loop rest (currentIndex + 1) longestIndex longestLength)"

text \<open>
  \<open>s1[longestIndex]\<close> panics in Go when the index is out of range; the result is \<open>None\<close>
  there, so that a panic is a value of the model.
\<close>

definition chooseLongest :: "string list \<Rightarrow> string option" where
  "chooseLongest s1 =
     (if length s1 < 1 then Some ''''
      else (let longestIndex = fst (chooseLongest_loop s1 0 (- 1) (- 1))
            in if 0 \<le> longestIndex \<and> longestIndex < int (length s1)
               then Some (s1 ! nat longestIndex) else None))"

text \<open>
  The getters return a Go \<open>string\<close>. \<open>chooseLongest\<close> never panics on their argument lists
  (lemma \<open>chooseLongest_returns\<close> below), so the getters read the value out of the option
  with a default that is never taken.
\<close>

definition returned :: "string option \<Rightarrow> string" where
  "returned r = (case r of Some s \<Rightarrow> s | None \<Rightarrow> '''')"

definition GetID :: "LambdaParams \<Rightarrow> string" where
  "GetID lp = returned (chooseLongest [IDPath lp, IDQuery lp])"

definition GetUserID :: "LambdaParams \<Rightarrow> string" where
  "GetUserID lp = returned (chooseLongest [UserIDPath lp, UserIDQuery lp, UserIDBody lp])"

definition GetOwnerID :: "LambdaParams \<Rightarrow> string" where
  "GetOwnerID lp = returned (chooseLongest [GetID lp, GetUserID lp])"

definition GetUserType :: "LambdaParams \<Rightarrow> string" where
  "GetUserType lp = returned (chooseLongest [UserTypePath lp, UserTypeQuery lp, UserTypeBody lp])"

section \<open>Go errors and the values the code takes from outside\<close>

record HTTPError =
  Status :: int
  Message :: string

text \<open>
  A Go \<open>error\<close> as the response builder sees it: a plain error with its text
  (\<open>errors.New\<close>), an \<open>HTTPError\<close> of package lres, or an error that wraps another one
  (\<open>fmt.Errorf\<close> with \<open>%w\<close>: its own text and the error \<open>Unwrap\<close> returns).
\<close>

datatype error =
    ErrorString string
  | ErrorHTTP HTTPError
  | ErrorWrap string error

text \<open>\<open>func (err HTTPError) Error() string\<close> is \<open>fmt.Sprintf("error %d: %s", ...)\<close>.\<close>

fun Error_text :: "error \<Rightarrow> string" where
  "Error_text (ErrorString s) = s"
| "Error_text (ErrorHTTP e) = ''error '' @ Itoa (Status e) @ '': '' @ Message e"
| "Error_text (ErrorWrap s inner) = s"

text \<open>\<open>errors.As(err, &httpErr)\<close>: the first \<open>HTTPError\<close> on the chain of \<open>err\<close>.\<close>

fun errors_As :: "error \<Rightarrow> HTTPError option" where
  "errors_As (ErrorString s) = None"
| "errors_As (ErrorHTTP e) = Some e"
| "errors_As (ErrorWrap s inner) = errors_As inner"

text \<open>
  The value of an \<open>interface{}\<close> that the middleware stores in a context or hands to a
  logger. \<open>AnyNil\<close> is the \<open>nil\<close> interface; a map held in an interface is never the \<open>nil\<close>
  interface, also when the map itself is \<open>nil\<close> or has no entry.
\<close>

datatype any =
    AnyNil
  | AnyString string
  | AnyInt64 "64 word"
  | AnyMap "string \<rightharpoonup> string"
  | AnyMultiMap "string \<rightharpoonup> string list"

text \<open>
  The names of the context-key constants of package lcom. Their string values are not
  in the source files at hand: \<open>keyName\<close> below gives them, and nothing is assumed about it.
\<close>

datatype key =
    LambdaContextIDKey | LambdaContextMethodKey | LambdaContextMultiParamsKey
  | LambdaContextPathKey | LambdaContextPathParamsKey | LambdaContextQueryParamsKey
  | LambdaContextRequestIDKey | LambdaContextUserIDKey | LambdaContextUserTypeKey
  | JWTClaimAudienceKey | JWTClaimEmailKey | JWTClaimExpiresAtKey | JWTClaimFirstNameKey
  | JWTClaimFullNameKey | JWTClaimIDKey | JWTClaimIssuedAtKey | JWTClaimIssuerKey
  | JWTClaimLevelKey | JWTClaimNotBeforeKey | JWTClaimSubjectKey | JWTClaimUserTypeKey

record StandardClaims =
  Audience :: string
  ExpiresAt :: "64 word"
  Id :: string
  IssuedAt :: "64 word"
  Issuer :: string
  NotBefore :: "64 word"
  Subject :: string

record ExpandedClaims =
  xAudience :: string
  xEmail :: string
  xExpiresAt :: "64 word"
  xFirstName :: string
  xFullName :: string
  xID :: string
  xIssuedAt :: "64 word"
  xIssuer :: string
  xLevel :: string
  xNotBefore :: "64 word"
  xSubject :: string
  xUserType :: string

record APIGatewayProxyRequest =
  ReqBody :: string
  HTTPMethod :: string
  ReqHeaders :: "string \<rightharpoonup> string"
  ReqIsBase64Encoded :: bool
  ReqMultiValueHeaders :: "string \<rightharpoonup> string list"
  MultiValueQueryStringParameters :: "string \<rightharpoonup> string list"
  Path :: string
  PathParameters :: "string \<rightharpoonup> string"
  QueryStringParameters :: "string \<rightharpoonup> string"
  RequestID :: string

record APIGatewayProxyResponse =
  StatusCode :: int
  Headers :: "string \<rightharpoonup> string"
  MultiValueHeaders :: "string \<rightharpoonup> string list"
  Body :: string
  IsBase64Encoded :: bool

text \<open>
  Everything the code reads from outside the source files at hand, in one record:
  the standard library (\<open>encoding/json\<close>, \<open>net/http\<close>, \<open>encoding/base64\<close>, \<open>os\<close>), the
  package variable \<open>ExposeServerErrors\<close>, and the packages lcom (constants), lreq and ljwt,
  which are not among the source files. \<open>'a\<close> is the type of the values a caller gives the
  response builder, \<open>'c\<close> is \<open>jwt.MapClaims\<close>.

  \<^item> \<open>jsonString s\<close> is the JSON string literal \<open>encoding/json\<close> writes for the Go string \<open>s\<close>;
  \<^item> \<open>jsonOther v\<close> is \<open>json.Marshal(v)\<close> for a caller's value, \<open>None\<close> when it returns an error;
  \<^item> \<open>jsonResponse r\<close> is \<open>json.Marshal(r)\<close> for a response;
  \<^item> \<open>StatusText\<close> is \<open>http.StatusText\<close>, \<open>base64Encode\<close> is \<open>base64.StdEncoding.EncodeToString\<close>,
    \<open>Getenv\<close> is \<open>os.Getenv\<close>;
  \<^item> \<open>UnmarshalReq req body\<close> is \<open>lreq.UnmarshalReq(req, body, lambdaParams)\<close> on a fresh
    \<open>LambdaParams\<close>: the struct as the call leaves it, and the error it returns;
  \<^item> \<open>verifyAndParse\<close>, \<open>ExtractStandard\<close>, \<open>ExtractCustom\<close> are the token verification and the
    two structural decodes of package ljwt.
\<close>

record ('a, 'c) extern =
  jsonString :: "string \<Rightarrow> string"
  jsonOther :: "'a \<Rightarrow> string option"
  jsonResponse :: "APIGatewayProxyResponse \<Rightarrow> string option"
  StatusText :: "int \<Rightarrow> string"
  base64Encode :: "string \<Rightarrow> string"
  Getenv :: "string \<Rightarrow> string"
  ExposeServerErrors :: bool
  keyName :: "key \<Rightarrow> string"
  ErrNoAuthorizationHeader :: error
  UnmarshalReq :: "APIGatewayProxyRequest \<Rightarrow> bool \<Rightarrow> LambdaParams \<times> error option"
  verifyAndParse :: "string \<Rightarrow> (int \<times> error) + 'c"
  ExtractStandard :: "'c \<Rightarrow> error + StandardClaims"
  ExtractCustom :: "'c \<Rightarrow> error + ExpandedClaims"

section \<open>Package lres: the response builder\<close>

text \<open>
  The header and environment names. lres takes them from package lcom; the same constants
  are declared, with these values, beside \<open>ServeHTTP\<close>.
\<close>

definition ContentTypeKey :: string where
  "ContentTypeKey = ''Content-Type''"

definition CORSHeadersHeaderKey :: string where
  "CORSHeadersHeaderKey = ''Access-Control-Allow-Headers''"

definition CORSMethodsHeaderKey :: string where
  "CORSMethodsHeaderKey = ''Access-Control-Allow-Methods''"

definition CORSOriginHeaderKey :: string where
  "CORSOriginHeaderKey = ''Access-Control-Allow-Origin''"

definition CORSHeadersEnvKey :: string where
  "CORSHeadersEnvKey = ''LAMBDA_JWT_ROUTER_CORS_HEADERS''"

definition CORSMethodsEnvKey :: string where
  "CORSMethodsEnvKey = ''LAMBDA_JWT_ROUTER_CORS_METHODS''"

definition CORSOriginEnvKey :: string where
  "CORSOriginEnvKey = ''LAMBDA_JWT_ROUTER_CORS_ORIGIN''"

text \<open>
  The \<open>data interface{}\<close> argument of \<open>Custom\<close>: an \<open>HTTPError\<close> (from \<open>Error\<close> and
  \<open>StatusAndError\<close>), the empty struct (from \<open>Empty\<close>), or a caller's value.
\<close>

datatype 'a data =
    HTTPErrorValue HTTPError
  | EmptyStruct
  | Value 'a

text \<open>
  \<open>json.Marshal\<close>. An \<open>HTTPError\<close> is written with the field names of its struct tags,
  \<open>json:"status"\<close> and \<open>json:"message"\<close>, in the order of the fields; \<open>struct{}{}\<close> is \<open>{}\<close>.
\<close>

definition json_Marshal :: "('a, 'c) extern \<Rightarrow> 'a data \<Rightarrow> string option" where
  \<open>json_Marshal E d =
     (case d of
        HTTPErrorValue e \<Rightarrow>
          Some (''{"status":'' @ Itoa (Status e) @ '',"message":'' @ jsonString E (Message e) @ ''}'')
      | EmptyStruct \<Rightarrow> Some ''{}''
      | Value v \<Rightarrow> jsonOther E v)\<close>

definition addCors :: "('a, 'c) extern \<Rightarrow> (string \<rightharpoonup> string) \<Rightarrow> (string \<rightharpoonup> string)" where
  "addCors E headers =
     (let corsHeaders = Getenv E CORSHeadersEnvKey;
          corsMethods = Getenv E CORSMethodsEnvKey;
          corsOrigins = Getenv E CORSOriginEnvKey;
          headers = (if corsHeaders \<noteq> '''' then headers(CORSHeadersHeaderKey \<mapsto> corsHeaders)
                     else headers);
          headers = (if corsMethods \<noteq> '''' then headers(CORSMethodsHeaderKey \<mapsto> corsMethods)
                     else headers);
          headers = (if corsOrigins \<noteq> '''' then headers(CORSOriginHeaderKey \<mapsto> corsOrigins)
                     else headers)
      in headers)"

definition Custom ::
  "('a, 'c) extern \<Rightarrow> int \<Rightarrow> (string \<rightharpoonup> string) option \<Rightarrow> 'a data
     \<Rightarrow> APIGatewayProxyResponse \<times> error option" where
  \<open>Custom E httpStatus headers d =
     (let (httpStatus, b) =
            (case json_Marshal E d of
               None \<Rightarrow> (500,
                 ''{"code":500,"message":"the server has encountered an unexpected error"}'')
             | Some b \<Rightarrow> (httpStatus, b));
          headers = (case headers of None \<Rightarrow> Map.empty | Some h \<Rightarrow> h);
          headers = headers(ContentTypeKey \<mapsto> ''application/json; charset=UTF-8'')
      in (\<lparr>StatusCode = httpStatus, Headers = addCors E headers,
           MultiValueHeaders = Map.empty, Body = b, IsBase64Encoded = False\<rparr>, None))\<close>

definition Empty :: "('a, 'c) extern \<Rightarrow> APIGatewayProxyResponse \<times> error option" where
  "Empty E = Custom E 200 None EmptyStruct"

definition Error :: "('a, 'c) extern \<Rightarrow> error \<Rightarrow> APIGatewayProxyResponse \<times> error option" where
  "Error E err =
     (let httpErr = (case errors_As err of
                       Some h \<Rightarrow> h
                     | None \<Rightarrow> \<lparr>Status = 500, Message = Error_text err\<rparr>);
          httpErr = (if Status httpErr \<ge> 500 \<and> \<not> ExposeServerErrors E
                     then httpErr\<lparr>Message := StatusText E (Status httpErr)\<rparr> else httpErr)
      in Custom E (Status httpErr) None (HTTPErrorValue httpErr))"

definition File ::
  "('a, 'c) extern \<Rightarrow> string \<Rightarrow> (string \<rightharpoonup> string) option \<Rightarrow> string
     \<Rightarrow> APIGatewayProxyResponse \<times> error option" where
  "File E contentType headers fileBytes =
     (let headers = (case headers of
                       None \<Rightarrow> Map.empty(ContentTypeKey \<mapsto> contentType)
                     | Some h \<Rightarrow> h(ContentTypeKey \<mapsto> contentType))
      in (\<lparr>StatusCode = 200, Headers = addCors E headers, MultiValueHeaders = Map.empty,
           Body = fileBytes, IsBase64Encoded = False\<rparr>, None))"

definition FileB64 ::
  "('a, 'c) extern \<Rightarrow> string \<Rightarrow> (string \<rightharpoonup> string) option \<Rightarrow> string
     \<Rightarrow> APIGatewayProxyResponse \<times> error option" where
  "FileB64 E contentType headers fileBytes =
     (let headers = (case headers of
                       None \<Rightarrow> Map.empty(ContentTypeKey \<mapsto> contentType)
                     | Some h \<Rightarrow> h(ContentTypeKey \<mapsto> contentType))
      in (\<lparr>StatusCode = 200, Headers = addCors E headers, MultiValueHeaders = Map.empty,
           Body = base64Encode E fileBytes, IsBase64Encoded = True\<rparr>, None))"

definition StatusAndError ::
  "('a, 'c) extern \<Rightarrow> int \<Rightarrow> error \<Rightarrow> APIGatewayProxyResponse \<times> error option" where
  "StatusAndError E httpStatus err =
     (let httpErr = \<lparr>Status = httpStatus, Message = Error_text err\<rparr>;
          httpErr = (if Status httpErr \<ge> 500 \<and> \<not> ExposeServerErrors E
                     then httpErr\<lparr>Message := StatusText E (Status httpErr)\<rparr> else httpErr)
      in Custom E (Status httpErr) None (HTTPErrorValue httpErr))"

definition Success :: "('a, 'c) extern \<Rightarrow> 'a data \<Rightarrow> APIGatewayProxyResponse \<times> error option" where
  "Success E d = Custom E 200 None d"

section \<open>Package lmw: the middleware\<close>

text \<open>
  A \<open>context.Context\<close> as the middleware uses it: \<open>context.WithValue(ctx, k, v)\<close> is
  \<open>ctx(k \<mapsto> v)\<close>, and \<open>ctx.Value(k)\<close> is the value stored last under \<open>k\<close>, or the \<open>nil\<close>
  interface.
\<close>

type_synonym Context = "string \<rightharpoonup> any"

text \<open>The comparison \<open>val == nil\<close> of an interface value.\<close>

fun isNil :: "any \<Rightarrow> bool" where
  "isNil AnyNil = True"
| "isNil (AnyString s) = False"
| "isNil (AnyInt64 i) = False"
| "isNil (AnyMap m) = False"
| "isNil (AnyMultiMap m) = False"

definition ctx_Value :: "Context \<Rightarrow> string \<Rightarrow> any" where
  "ctx_Value ctx k = (case ctx k of None \<Rightarrow> AnyNil | Some v \<Rightarrow> v)"

text \<open>
  What the middleware writes to the zerolog logger is kept as a list of events, oldest
  first: the level, the fields in the order they are added, and the message.
\<close>

datatype field =
    Interface string any
  | RawJSON string string
  | IntField string int

record logEvent =
  evLevel :: string
  evFields :: "field list"
  evMsg :: string

text \<open>
  An \<open>lcom.Handler\<close>: from the context and the request to the response and the error, with
  the log passed through, so that what a handler logs, and when, is part of its result.
\<close>

type_synonym Handler =
  "Context \<Rightarrow> APIGatewayProxyRequest \<Rightarrow> logEvent list
     \<Rightarrow> (APIGatewayProxyResponse \<times> error option) \<times> logEvent list"

text \<open>
  The builders that lmw calls as \<open>lres.ErrorRes\<close>, \<open>lres.EmptyRes\<close> and
  \<open>lres.StatusAndErrorRes\<close> are the builders \<open>Error\<close>, \<open>Empty\<close> and \<open>StatusAndError\<close> of lres
  (the tests of lres name them \<open>TestErrorRes\<close>, \<open>TestEmptyRes\<close>, \<open>TestStatusAndErrorRes\<close>).
\<close>

definition ErrorRes :: "('a, 'c) extern \<Rightarrow> error \<Rightarrow> APIGatewayProxyResponse \<times> error option" where
  "ErrorRes E err = Error E err"

definition EmptyRes :: "('a, 'c) extern \<Rightarrow> APIGatewayProxyResponse \<times> error option" where
  "EmptyRes E = Empty E"

definition StatusAndErrorRes ::
  "('a, 'c) extern \<Rightarrow> int \<Rightarrow> error \<Rightarrow> APIGatewayProxyResponse \<times> error option" where
  "StatusAndErrorRes E httpStatus err = StatusAndError E httpStatus err"

definition lambdaContextKeys :: "key list" where
  "lambdaContextKeys =
     [LambdaContextIDKey, LambdaContextMethodKey, LambdaContextMultiParamsKey,
      LambdaContextPathKey, LambdaContextPathParamsKey, LambdaContextQueryParamsKey,
      LambdaContextRequestIDKey, LambdaContextUserIDKey, LambdaContextUserTypeKey]"

subsection \<open>LogRequestMW\<close>

text \<open>
  \<open>LogRequestMW\<close> of src/lmw/lmw.go. The status to log is kept in the local \<open>code\<close>;
  \<open>log.Printf\<close> of zerolog writes a debug event.
\<close>

definition LogRequestMW :: "('a, 'c) extern \<Rightarrow> Handler \<Rightarrow> Handler" where
  "LogRequestMW E next ctx req lg =
     (let ((res, err), lg) = next ctx req lg;
          (level, code, extra) =
            (case err of
               Some e \<Rightarrow> (''ERR'', 500, '' '' @ Error_text e)
             | None \<Rightarrow> (if StatusCode res \<ge> 400 then ''ERR'' else ''INF'', StatusCode res, ''''));
          lg = (if code > 399
                then lg @ [\<lparr>evLevel = ''error'',
                            evFields = map (\<lambda>k. Interface (keyName E k) (ctx_Value ctx (keyName E k)))
                                       lambdaContextKeys
                                     @ [RawJSON ''res'' (case jsonResponse E res of
                                                           Some j \<Rightarrow> j | None \<Rightarrow> '''')],
                            evMsg = ''error encountered''\<rparr>]
                else lg);
          lg = lg @ [\<lparr>evLevel = ''debug'', evFields = [],
                      evMsg = ''['' @ level @ ''] ['' @ HTTPMethod req @ '' '' @ Path req @ ''] [''
                            @ Itoa code @ '']'' @ extra\<rparr>]
      in ((res, err), lg))"

text \<open>
  \<open>logContextValues\<close> and \<open>LogRequestMW\<close> of src/unnamed/part_000. Here the middleware
  assigns to the status code of the response it is about to return.
\<close>

definition logContextValues ::
  "('a, 'c) extern \<Rightarrow> Context \<Rightarrow> APIGatewayProxyResponse \<Rightarrow> string list \<Rightarrow> logEvent" where
  "logContextValues E ctx res ctxVals =
     (let event = (if StatusCode res > 399
                   then \<lparr>evLevel = ''error'', evFields = [RawJSON ''body'' (jsonString E (Body res))],
                         evMsg = ''''\<rparr>
                   else \<lparr>evLevel = ''info'', evFields = [], evMsg = ''''\<rparr>);
          event = event\<lparr>evFields := evFields event
                    @ map (\<lambda>currentKey. Interface currentKey (ctx_Value ctx currentKey))
                        (filter (\<lambda>currentKey. \<not> isNil (ctx_Value ctx currentKey)) ctxVals)\<rparr>;
          event = event\<lparr>evFields := evFields event @ [IntField ''statusCode'' (StatusCode res)]\<rparr>
      in event\<lparr>evMsg := ''request finished''\<rparr>)"

definition LogRequestMW_part_000 :: "('a, 'c) extern \<Rightarrow> Handler \<Rightarrow> Handler" where
  "LogRequestMW_part_000 E next ctx req lg =
     (let ((res, err), lg) = next ctx req lg;
          res = (case err of Some e \<Rightarrow> res\<lparr>StatusCode := 500\<rparr> | None \<Rightarrow> res);
          ctxVals = map (keyName E) lambdaContextKeys
      in ((res, err), lg @ [logContextValues E ctx res ctxVals]))"

subsection \<open>InjectLambdaContextMW\<close>

text \<open>
  \<open>InjectLambdaContextMW\<close> of src/lmw/lmw.go: it returns the error response when
  \<open>UnmarshalReq\<close> fails, and stores the nine values one after the other otherwise.
\<close>

definition InjectLambdaContextMW :: "('a, 'c) extern \<Rightarrow> Handler \<Rightarrow> Handler" where
  "InjectLambdaContextMW E next ctx req lg =
     (let (lambdaParams, err) = UnmarshalReq E req True
      in case err of
           Some e \<Rightarrow> (ErrorRes E e, lg)
         | None \<Rightarrow>
            (let ctx = ctx(keyName E LambdaContextIDKey \<mapsto> AnyString (GetID lambdaParams));
                 ctx = ctx(keyName E LambdaContextMethodKey \<mapsto> AnyString (HTTPMethod req));
                 ctx = ctx(keyName E LambdaContextMultiParamsKey \<mapsto>
                             AnyMultiMap (MultiValueQueryStringParameters req));
                 ctx = ctx(keyName E LambdaContextPathKey \<mapsto> AnyString (Path req));
                 ctx = ctx(keyName E LambdaContextPathParamsKey \<mapsto> AnyMap (PathParameters req));
                 ctx = ctx(keyName E LambdaContextQueryParamsKey \<mapsto>
                             AnyMap (QueryStringParameters req));
                 ctx = ctx(keyName E LambdaContextRequestIDKey \<mapsto> AnyString (RequestID req));
                 ctx = ctx(keyName E LambdaContextUserIDKey \<mapsto> AnyString (GetUserID lambdaParams));
                 ctx = ctx(keyName E LambdaContextUserTypeKey \<mapsto>
                             AnyString (GetUserType lambdaParams))
             in next ctx req lg))"

text \<open>
  \<open>addToContext\<close> and \<open>InjectLambdaContextMW\<close> of src/unnamed/part_000. \<open>vals\<close> is the list of
  the entries of the Go map in the order the \<open>range\<close> loop visits them.
\<close>

fun addToContext :: "Context \<Rightarrow> (string \<times> any) list \<Rightarrow> Context" where
  "addToContext ctx [] = ctx"
| "addToContext ctx ((k, val) # vals) =
     (if isNil val then addToContext ctx vals
      else (case val of
              AnyString strVal \<Rightarrow>
                (if strVal \<noteq> '''' then addToContext (ctx(k \<mapsto> val)) vals
                 else addToContext ctx vals)
            | _ \<Rightarrow> addToContext (ctx(k \<mapsto> val)) vals))"

definition lambdaContextVals ::
  "('a, 'c) extern \<Rightarrow> LambdaParams \<Rightarrow> APIGatewayProxyRequest \<Rightarrow> (string \<times> any) list" where
  "lambdaContextVals E lambdaParams req =
     [(keyName E LambdaContextIDKey, AnyString (GetID lambdaParams)),
      (keyName E LambdaContextMethodKey, AnyString (HTTPMethod req)),
      (keyName E LambdaContextMultiParamsKey, AnyMultiMap (MultiValueQueryStringParameters req)),
      (keyName E LambdaContextPathKey, AnyString (Path req)),
      (keyName E LambdaContextPathParamsKey, AnyMap (PathParameters req)),
      (keyName E LambdaContextQueryParamsKey, AnyMap (QueryStringParameters req)),
      (keyName E LambdaContextRequestIDKey, AnyString (RequestID req)),
      (keyName E LambdaContextUserIDKey, AnyString (GetUserID lambdaParams)),
      (keyName E LambdaContextUserTypeKey, AnyString (GetUserType lambdaParams))]"

definition InjectLambdaContextMW_part_000 :: "('a, 'c) extern \<Rightarrow> Handler \<Rightarrow> Handler" where
  "InjectLambdaContextMW_part_000 E next ctx req lg =
     (let (lambdaParams, ignored) = UnmarshalReq E req True;
          vals = lambdaContextVals E lambdaParams req;
          ctx = addToContext ctx vals
      in next ctx req lg)"

subsection \<open>AllowOptionsMW\<close>

definition AllowOptionsMW :: "('a, 'c) extern \<Rightarrow> Handler" where
  "AllowOptionsMW E ctx req lg = (EmptyRes E, lg)"

subsection \<open>The claims decoders\<close>

text \<open>
  Modelled from the spec: \<open>ljwt.ExtractJWT\<close> is not among the source files. The bearer
  token is taken from the \<open>Authorization\<close> entry of the header map; when the entry is absent
  or does not start with the scheme prefix the call fails with the missing-header error
  and status 400; otherwise the token goes to the verification capability, which gives
  the claims or a status and an error.
\<close>

definition ExtractJWT ::
  "('a, 'c) extern \<Rightarrow> (string \<rightharpoonup> string) \<Rightarrow> (int \<times> error) + 'c" where
  "ExtractJWT E headers =
     (case headers ''Authorization'' of
        None \<Rightarrow> Inl (400, ErrNoAuthorizationHeader E)
      | Some h \<Rightarrow>
          (if take (length ''Bearer '') h \<noteq> ''Bearer '' then Inl (400, ErrNoAuthorizationHeader E)
           else verifyAndParse E (drop (length ''Bearer '') h)))"

definition DecodeStandardMW :: "('a, 'c) extern \<Rightarrow> Handler \<Rightarrow> Handler" where
  "DecodeStandardMW E next ctx req lg =
     (case ExtractJWT E (ReqHeaders req) of
        Inl (httpStatus, err) \<Rightarrow> (StatusAndErrorRes E httpStatus err, lg)
      | Inr mapClaims \<Rightarrow>
         (case ExtractStandard E mapClaims of
            Inl err \<Rightarrow> (StatusAndErrorRes E 500 err, lg)
          | Inr standardClaims \<Rightarrow>
             (let ctx = ctx(keyName E JWTClaimAudienceKey \<mapsto> AnyString (Audience standardClaims));
                  ctx = ctx(keyName E JWTClaimExpiresAtKey \<mapsto> AnyInt64 (ExpiresAt standardClaims));
                  ctx = ctx(keyName E JWTClaimIDKey \<mapsto> AnyString (Id standardClaims));
                  ctx = ctx(keyName E JWTClaimIssuedAtKey \<mapsto> AnyInt64 (IssuedAt standardClaims));
                  ctx = ctx(keyName E JWTClaimIssuerKey \<mapsto> AnyString (Issuer standardClaims));
                  ctx = ctx(keyName E JWTClaimNotBeforeKey \<mapsto> AnyInt64 (NotBefore standardClaims));
                  ctx = ctx(keyName E JWTClaimSubjectKey \<mapsto> AnyString (Subject standardClaims))
              in next ctx req lg)))"

definition DecodeExpandedMW :: "('a, 'c) extern \<Rightarrow> Handler \<Rightarrow> Handler" where
  "DecodeExpandedMW E next ctx req lg =
     (case ExtractJWT E (ReqHeaders req) of
        Inl (httpStatus, err) \<Rightarrow> (StatusAndErrorRes E httpStatus err, lg)
      | Inr mapClaims \<Rightarrow>
         (case ExtractCustom E mapClaims of
            Inl err \<Rightarrow> (StatusAndErrorRes E 500 err, lg)
          | Inr extendedClaims \<Rightarrow>
             (let ctx = ctx(keyName E JWTClaimAudienceKey \<mapsto> AnyString (xAudience extendedClaims));
                  ctx = ctx(keyName E JWTClaimEmailKey \<mapsto> AnyString (xEmail extendedClaims));
                  ctx = ctx(keyName E JWTClaimExpiresAtKey \<mapsto> AnyInt64 (xExpiresAt extendedClaims));
                  ctx = ctx(keyName E JWTClaimFirstNameKey \<mapsto> AnyString (xFirstName extendedClaims));
                  ctx = ctx(keyName E JWTClaimFullNameKey \<mapsto> AnyString (xFullName extendedClaims));
                  ctx = ctx(keyName E JWTClaimIDKey \<mapsto> AnyString (xID extendedClaims));
                  ctx = ctx(keyName E JWTClaimIssuedAtKey \<mapsto> AnyInt64 (xIssuedAt extendedClaims));
                  ctx = ctx(keyName E JWTClaimIssuerKey \<mapsto> AnyString (xIssuer extendedClaims));
                  ctx = ctx(keyName E JWTClaimLevelKey \<mapsto> AnyString (xLevel extendedClaims));
                  ctx = ctx(keyName E JWTClaimNotBeforeKey \<mapsto> AnyInt64 (xNotBefore extendedClaims));
                  ctx = ctx(keyName E JWTClaimSubjectKey \<mapsto> AnyString (xSubject extendedClaims));
                  ctx = ctx(keyName E JWTClaimUserTypeKey \<mapsto> AnyString (xUserType extendedClaims))
              in next ctx req lg)))"

section \<open>Package lambda_router: the transport adapter\<close>

text \<open>
  \<open>convertMap\<close>: the \<open>range\<close> loop over the entries of the multi-valued map, with the
  single-valued map built so far.
\<close>

fun convertMap_loop ::
  "(string \<times> string list) list \<Rightarrow> (string \<rightharpoonup> string) \<Rightarrow> (string \<rightharpoonup> string)" where
  "convertMap_loop [] singleValue = singleValue"
| "convertMap_loop ((k, v) # rest) singleValue =
     (if length v = 1 then convertMap_loop rest (singleValue(k \<mapsto> v ! 0))
      else convertMap_loop rest singleValue)"

definition convertMap :: "(string \<times> string list) list \<Rightarrow> (string \<rightharpoonup> string)" where
  "convertMap inp = convertMap_loop inp Map.empty"

text \<open>
  The part of an \<open>http.Request\<close> that \<open>ServeHTTP\<close> reads. \<open>Header\<close> and \<open>URLQuery\<close> are the
  entries of the two multi-valued maps (\<open>r.Header\<close> and \<open>r.URL.Query()\<close>), each key once;
  \<open>ReadAllBody\<close> is the result of \<open>io.ReadAll(r.Body)\<close>.
\<close>

record Request =
  Method :: string
  Header :: "(string \<times> string list) list"
  URLQuery :: "(string \<times> string list) list"
  URLPath :: string
  ReadAllBody :: "error + string"

text \<open>\<open>r.Header.Get(key)\<close> for a key in canonical form: the first value, or the empty string.\<close>

definition Header_Get :: "(string \<times> string list) list \<Rightarrow> string \<Rightarrow> string" where
  "Header_Get h k = (case map_of h k of Some (v # vs) \<Rightarrow> v | _ \<Rightarrow> '''')"

text \<open>
  The gateway event that \<open>ServeHTTP\<close> hands to the router's handler (the function up to the
  call of \<open>l.Handler\<close>); \<open>None\<close> when reading the body fails and \<open>ServeHTTP\<close> answers 500
  without calling the handler.
\<close>

definition ServeHTTP_event :: "('a, 'c) extern \<Rightarrow> Request \<Rightarrow> APIGatewayProxyRequest option" where
  "ServeHTTP_event E r =
     (let singleValueHeaders = convertMap (Header r);
          singleValueQuery = convertMap (URLQuery r)
      in case ReadAllBody r of
           Inl err \<Rightarrow> None
         | Inr body \<Rightarrow>
            (let event = \<lparr>ReqBody = body, HTTPMethod = Method r, ReqHeaders = singleValueHeaders,
                          ReqIsBase64Encoded = False, ReqMultiValueHeaders = map_of (Header r),
                          MultiValueQueryStringParameters = map_of (URLQuery r),
                          Path = URLPath r, PathParameters = Map.empty,
                          QueryStringParameters = singleValueQuery, RequestID = ''''\<rparr>
             in if take (length ''multipart/form-data; boundary'') (Header_Get (Header r) ContentTypeKey)
                     = ''multipart/form-data; boundary''
                then Some (event\<lparr>ReqBody := base64Encode E body, ReqIsBase64Encoded := True\<rparr>)
                else Some event))"

section \<open>A concrete environment, request and handlers\<close>

text \<open>
  One instance of everything the code takes from outside, on which the functions above
  can be run: JSON strings without characters to escape, the reason phrases of 400, 404
  and 500, no CORS variable set, server errors not exposed, an \<open>UnmarshalReq\<close> that fails
  on the truncated body \<open>{\<close> and reads the path parameter \<open>id\<close> otherwise.
\<close>

definition exampleKeyName :: "key \<Rightarrow> string" where
  "exampleKeyName k =
     (case k of
        LambdaContextIDKey \<Rightarrow> ''id'' | LambdaContextMethodKey \<Rightarrow> ''method''
      | LambdaContextMultiParamsKey \<Rightarrow> ''multiParams'' | LambdaContextPathKey \<Rightarrow> ''path''
      | LambdaContextPathParamsKey \<Rightarrow> ''pathParams''
      | LambdaContextQueryParamsKey \<Rightarrow> ''queryParams''
      | LambdaContextRequestIDKey \<Rightarrow> ''requestId'' | LambdaContextUserIDKey \<Rightarrow> ''userId''
      | LambdaContextUserTypeKey \<Rightarrow> ''userType''
      | JWTClaimAudienceKey \<Rightarrow> ''aud'' | JWTClaimEmailKey \<Rightarrow> ''email''
      | JWTClaimExpiresAtKey \<Rightarrow> ''exp'' | JWTClaimFirstNameKey \<Rightarrow> ''firstName''
      | JWTClaimFullNameKey \<Rightarrow> ''fullName'' | JWTClaimIDKey \<Rightarrow> ''jti''
      | JWTClaimIssuedAtKey \<Rightarrow> ''iat'' | JWTClaimIssuerKey \<Rightarrow> ''iss''
      | JWTClaimLevelKey \<Rightarrow> ''level'' | JWTClaimNotBeforeKey \<Rightarrow> ''nbf''
      | JWTClaimSubjectKey \<Rightarrow> ''sub'' | JWTClaimUserTypeKey \<Rightarrow> ''claimUserType'')"

definition zeroLambdaParams :: LambdaParams where
  "zeroLambdaParams =
     \<lparr>IDPath = '''', IDQuery = '''', UserIDBody = '''', UserIDPath = '''', UserIDQuery = '''',
      UserTypeBody = '''', UserTypePath = '''', UserTypeQuery = ''''\<rparr>"

definition exampleUnmarshalReq ::
  "APIGatewayProxyRequest \<Rightarrow> bool \<Rightarrow> LambdaParams \<times> error option" where
  "exampleUnmarshalReq req body =
     (zeroLambdaParams\<lparr>IDPath := (case PathParameters req ''id'' of Some v \<Rightarrow> v | None \<Rightarrow> '''')\<rparr>,
      if body \<and> ReqBody req = ''{'' then Some (ErrorString ''unexpected end of JSON input'')
      else None)"

definition exampleExtern :: "(unit, unit) extern" where
  "exampleExtern =
     \<lparr>jsonString = (\<lambda>s. [CHR 0x22] @ s @ [CHR 0x22]),
      jsonOther = (\<lambda>v. None),
      jsonResponse = (\<lambda>r. None),
      StatusText = (\<lambda>n. if n = 400 then ''Bad Request'' else if n = 404 then ''Not Found''
                         else if n = 500 then ''Internal Server Error'' else ''''),
      base64Encode = (\<lambda>s. s),
      Getenv = (\<lambda>k. ''''),
      ExposeServerErrors = False,
      keyName = exampleKeyName,
      ErrNoAuthorizationHeader = ErrorString ''no authorization header'',
      UnmarshalReq = exampleUnmarshalReq,
      verifyAndParse = (\<lambda>t. Inl (401, ErrorString ''invalid token'')),
      ExtractStandard = (\<lambda>c. Inl (ErrorString ''no claims'')),
      ExtractCustom = (\<lambda>c. Inl (ErrorString ''no claims''))\<rparr>"

definition exampleRequest :: APIGatewayProxyRequest where
  "exampleRequest =
     \<lparr>ReqBody = ''{'', HTTPMethod = ''POST'', ReqHeaders = Map.empty, ReqIsBase64Encoded = False,
      ReqMultiValueHeaders = Map.empty, MultiValueQueryStringParameters = Map.empty,
      Path = ''/books'', PathParameters = Map.empty, QueryStringParameters = Map.empty,
      RequestID = ''r-1''\<rparr>"

definition handlerRan :: logEvent where
  "handlerRan = \<lparr>evLevel = ''info'', evFields = [], evMsg = ''handler ran''\<rparr>"

definition exampleResponse :: APIGatewayProxyResponse where
  "exampleResponse =
     \<lparr>StatusCode = 200, Headers = Map.empty, MultiValueHeaders = Map.empty, Body = ''done'',
      IsBase64Encoded = False\<rparr>"

text \<open>A terminal handler that answers 200, and one that returns a response and an error.\<close>

definition exampleNext :: Handler where
  "exampleNext ctx req lg = ((exampleResponse, None), lg @ [handlerRan])"

definition failingNext :: Handler where
  "failingNext ctx req lg = ((exampleResponse, Some (ErrorString ''boom'')), lg @ [handlerRan])"

text \<open>
  A terminal handler that reports in the body of its response what the context it received
  holds under the key \<open>k\<close>.
\<close>

definition describe :: "any option \<Rightarrow> string" where
  "describe v =
     (case v of
        None \<Rightarrow> ''absent''
      | Some AnyNil \<Rightarrow> ''nil''
      | Some (AnyString s) \<Rightarrow> ''string['' @ s @ '']''
      | Some (AnyInt64 i) \<Rightarrow> ''int64''
      | Some (AnyMap m) \<Rightarrow> ''map''
      | Some (AnyMultiMap m) \<Rightarrow> ''multimap'')"

definition contextProbe :: "string \<Rightarrow> Handler" where
  "contextProbe k ctx req lg = ((exampleResponse\<lparr>Body := describe (ctx k)\<rparr>, None), lg)"

section \<open>The properties of the specification, as definitions\<close>

text \<open>
  The error body wire format of the specification, \<open>{"status": <int>, "message": <string>}\<close>,
  for a status and a message.
\<close>

definition errorWireFormat :: "('a, 'c) extern \<Rightarrow> int \<Rightarrow> string \<Rightarrow> string" where
  \<open>errorWireFormat E status message =
     ''{"status":'' @ Itoa status @ '',"message":'' @ jsonString E message @ ''}''\<close>

text \<open>
  CORS injection as the specification words it, between the header map a builder is given
  and the header map of its response: each of the three configured values that is not
  empty is the value of its header; each one that is empty leaves its header as given.
\<close>

definition corsPairs :: "(string \<times> string) list" where
  "corsPairs =
     [(CORSHeadersEnvKey, CORSHeadersHeaderKey), (CORSMethodsEnvKey, CORSMethodsHeaderKey),
      (CORSOriginEnvKey, CORSOriginHeaderKey)]"

definition corsInjected ::
  "('a, 'c) extern \<Rightarrow> (string \<rightharpoonup> string) \<Rightarrow> (string \<rightharpoonup> string) \<Rightarrow> bool" where
  "corsInjected E given result =
     list_all (\<lambda>(envKey, headerKey).
                 if Getenv E envKey \<noteq> '''' then result headerKey = Some (Getenv E envKey)
                 else result headerKey = given headerKey)
       corsPairs"

definition givenHeaders :: "(string \<rightharpoonup> string) option \<Rightarrow> (string \<rightharpoonup> string)" where
  "givenHeaders headers = (case headers of None \<Rightarrow> Map.empty | Some h \<Rightarrow> h)"

text \<open>An environment in which only the allowed origin is configured.\<close>

definition starEnv :: "(unit, unit) extern" where
  "starEnv = exampleExtern\<lparr>Getenv := (\<lambda>k. if k = CORSOriginEnvKey then ''*'' else '''')\<rparr>"

text \<open>A native request with one, two and no values under its query keys.\<close>

definition exampleHTTPRequest :: Request where
  "exampleHTTPRequest =
     \<lparr>Method = ''GET'',
      Header = [(''Accept'', [''text/html'', ''application/json'']), (''Host'', [''localhost''])],
      URLQuery = [(''tag'', [''a'', ''b'']), (''id'', [''7'']), (''empty'', [])],
      URLPath = ''/books'', ReadAllBody = Inr ''''\<rparr>"

text \<open>
  The character length of the specification: the number of characters of a UTF-8 text,
  which is the number of its bytes that are not continuation bytes (\<open>0x80\<close> to \<open>0xBF\<close>).
  A text is ASCII when every byte is below \<open>0x80\<close>; then each byte is one character.
\<close>

definition continuationByte :: "char \<Rightarrow> bool" where
  "continuationByte c = (128 \<le> (of_char c :: nat) \<and> (of_char c :: nat) < 192)"

definition characterLength :: "string \<Rightarrow> nat" where
  "characterLength s = length (filter (\<lambda>c. \<not> continuationByte c) s)"

definition isASCII :: "string \<Rightarrow> bool" where
  "isASCII s = list_all (\<lambda>c. (of_char c :: nat) < 128) s"

definition zeroUserID :: "string \<Rightarrow> string \<Rightarrow> string \<Rightarrow> LambdaParams" where
  "zeroUserID path query body =
     \<lparr>IDPath = '''', IDQuery = '''', UserIDBody = body, UserIDPath = path, UserIDQuery = query,
      UserTypeBody = '''', UserTypePath = '''', UserTypeQuery = ''''\<rparr>"

section \<open>The parameter resolver picks the first longest candidate\<close>

text \<open>
  Invariant of the loop, started at index \<open>k\<close> with a best candidate \<open>(li, ll)\<close> among the
  strings already visited: the final index is either the old one, and then nothing in the
  rest is strictly longer, or the position of the first string of the rest that is at
  least as long as every other one and strictly longer than everything before it.
\<close>

lemma chooseLongest_loop_spec:
  "chooseLongest_loop xs k li ll = (ri, rl) \<Longrightarrow>
     (ri = li \<and> rl = ll \<and> (\<forall>j<length xs. int (length (xs ! j)) \<le> ll)) \<or>
     (\<exists>i<length xs. ri = k + int i \<and> rl = int (length (xs ! i)) \<and> ll < rl \<and>
        (\<forall>j<length xs. length (xs ! j) \<le> length (xs ! i)) \<and>
        (\<forall>j<i. length (xs ! j) < length (xs ! i)))"
proof (induction xs arbitrary: k li ll)
  case Nil
  then show ?case by simp
next
  case (Cons x xs)
  show ?case
  proof (cases "int (length x) > ll")
    case True
    with Cons.prems have run: "chooseLongest_loop xs (k + 1) k (int (length x)) = (ri, rl)"
      by simp
    from Cons.IH [OF run] show ?thesis
    proof (elim disjE conjE exE)
      assume keep: "ri = k" "rl = int (length x)"
        and le: "\<forall>j<length xs. int (length (xs ! j)) \<le> int (length x)"
      have "\<forall>j<length (x # xs). length ((x # xs) ! j) \<le> length ((x # xs) ! 0)"
        using le by (auto simp: nth_Cons split: nat.splits)
      with keep True show ?thesis
        by (intro disjI2 exI [of _ 0]) simp
    next
      fix i
      assume i: "i < length xs" "ri = k + 1 + int i" "rl = int (length (xs ! i))"
        "int (length x) < rl"
        and le: "\<forall>j<length xs. length (xs ! j) \<le> length (xs ! i)"
        and lt: "\<forall>j<i. length (xs ! j) < length (xs ! i)"
      have a: "\<forall>j<length (x # xs). length ((x # xs) ! j) \<le> length ((x # xs) ! Suc i)"
        using le i by (auto simp: nth_Cons split: nat.splits)
      have b: "\<forall>j<Suc i. length ((x # xs) ! j) < length ((x # xs) ! Suc i)"
        using lt i by (auto simp: nth_Cons split: nat.splits)
      from i True a b show ?thesis
        by (intro disjI2 exI [of _ "Suc i"]) auto
    qed
  next
    case False
    with Cons.prems have run: "chooseLongest_loop xs (k + 1) li ll = (ri, rl)"
      by simp
    from Cons.IH [OF run] show ?thesis
    proof (elim disjE conjE exE)
      assume keep: "ri = li" "rl = ll"
        and le: "\<forall>j<length xs. int (length (xs ! j)) \<le> ll"
      have "\<forall>j<length (x # xs). int (length ((x # xs) ! j)) \<le> ll"
        using le False by (auto simp: nth_Cons split: nat.splits)
      with keep show ?thesis by simp
    next
      fix i
      assume i: "i < length xs" "ri = k + 1 + int i" "rl = int (length (xs ! i))" "ll < rl"
        and le: "\<forall>j<length xs. length (xs ! j) \<le> length (xs ! i)"
        and lt: "\<forall>j<i. length (xs ! j) < length (xs ! i)"
      from i False have x_lt: "length x < length (xs ! i)" by simp
      have a: "\<forall>j<length (x # xs). length ((x # xs) ! j) \<le> length ((x # xs) ! Suc i)"
        using le x_lt by (auto simp: nth_Cons split: nat.splits)
      have b: "\<forall>j<Suc i. length ((x # xs) ! j) < length ((x # xs) ! Suc i)"
        using lt x_lt by (auto simp: nth_Cons split: nat.splits)
      from i a b show ?thesis
        by (intro disjI2 exI [of _ "Suc i"]) auto
    qed
  qed
qed

lemma chooseLongest_loop_first_longest:
  assumes "s1 \<noteq> []"
  shows "\<exists>i<length s1. fst (chooseLongest_loop s1 0 (- 1) (- 1)) = int i \<and>
           (\<forall>j<length s1. length (s1 ! j) \<le> length (s1 ! i)) \<and>
           (\<forall>j<i. length (s1 ! j) < length (s1 ! i))"
proof -
  obtain ri rl where run: "chooseLongest_loop s1 0 (- 1) (- 1) = (ri, rl)"
    by (cases "chooseLongest_loop s1 0 (- 1) (- 1)")
  from assms have "0 < length s1" by simp
  then have "\<not> (\<forall>j<length s1. int (length (s1 ! j)) \<le> - 1)"
    by (intro notI) (drule spec [of _ 0], simp)
  with chooseLongest_loop_spec [OF run] run show ?thesis
    by auto
qed

lemma chooseLongest_returns: "\<exists>r. chooseLongest s1 = Some r"
proof (cases "s1 = []")
  case True
  then show ?thesis by (simp add: chooseLongest_def)
next
  case False
  from chooseLongest_loop_first_longest [OF False] show ?thesis
    by (auto simp: chooseLongest_def Let_def)
qed

lemma characterLength_ascii: "isASCII s \<Longrightarrow> characterLength s = length s"
  by (induction s) (auto simp: isASCII_def characterLength_def continuationByte_def)

text \<open>
  Claim C6, as stated, fails: the length \<open>chooseLongest\<close> compares is \<open>len\<close>, the number of
  bytes. For the path "abc" and a query of two characters of two bytes each (the letter e
  with an acute accent, twice: the UTF-8 bytes \<open>C3 A9 C3 A9\<close>) it returns the query, which
  has fewer characters than the path.
\<close>

theorem chooseLongest_counts_bytes:
  "chooseLongest [''abc'', [CHR 0xC3, CHR 0xA9, CHR 0xC3, CHR 0xA9]]
     = Some [CHR 0xC3, CHR 0xA9, CHR 0xC3, CHR 0xA9] \<and>
   characterLength [CHR 0xC3, CHR 0xA9, CHR 0xC3, CHR 0xA9] = 2 \<and>
   characterLength ''abc'' = 3 \<and>
   characterLength [CHR 0xC3, CHR 0xA9, CHR 0xC3, CHR 0xA9] < characterLength ''abc'' \<and>
   GetUserID (zeroUserID ''abc'' [CHR 0xC3, CHR 0xA9, CHR 0xC3, CHR 0xA9] '''')
     = [CHR 0xC3, CHR 0xA9, CHR 0xC3, CHR 0xA9]"
  by (simp add: chooseLongest_def characterLength_def continuationByte_def GetUserID_def
      returned_def zeroUserID_def)

text \<open>
  Claim C6, amended. \<open>chooseLongest\<close> always returns (it never indexes out of range). On no
  candidate it returns the empty string. On a non-empty argument list it returns the
  candidate at a position \<open>i\<close> such that no candidate has more bytes (Go's \<open>len\<close>) and every
  candidate before position \<open>i\<close> has strictly fewer: the candidate of greatest byte length,
  and the first in argument order among those. When every candidate is ASCII the same
  holds for the character length. \<open>GetUserID\<close> returns the candidate so chosen among the
  path, the query and the body value, in this order. The result is "22" for
  ("1", "22", "") and "fghij" for ("abc", "de", "fghij").
\<close>

theorem chooseLongest_first_of_longest:
  "(s1 = [] \<longrightarrow> chooseLongest s1 = Some '''') \<and>
   (s1 \<noteq> [] \<longrightarrow>
      (\<exists>i<length s1. chooseLongest s1 = Some (s1 ! i) \<and>
         (\<forall>j<length s1. length (s1 ! j) \<le> length (s1 ! i)) \<and>
         (\<forall>j<i. length (s1 ! j) < length (s1 ! i)))) \<and>
   (s1 \<noteq> [] \<and> list_all isASCII s1 \<longrightarrow>
      (\<exists>i<length s1. chooseLongest s1 = Some (s1 ! i) \<and>
         (\<forall>j<length s1. characterLength (s1 ! j) \<le> characterLength (s1 ! i)) \<and>
         (\<forall>j<i. characterLength (s1 ! j) < characterLength (s1 ! i)))) \<and>
   (\<exists>i<3. GetUserID lp = [UserIDPath lp, UserIDQuery lp, UserIDBody lp] ! i \<and>
      (\<forall>j<3. length ([UserIDPath lp, UserIDQuery lp, UserIDBody lp] ! j) \<le> length (GetUserID lp)) \<and>
      (\<forall>j<i. length ([UserIDPath lp, UserIDQuery lp, UserIDBody lp] ! j) < length (GetUserID lp))) \<and>
   chooseLongest [''1'', ''22'', ''''] = Some ''22'' \<and>
   chooseLongest [''abc'', ''de'', ''fghij''] = Some ''fghij''"
proof -
  have bytes: "\<exists>i<length xs. chooseLongest xs = Some (xs ! i) \<and>
         (\<forall>j<length xs. length (xs ! j) \<le> length (xs ! i)) \<and>
         (\<forall>j<i. length (xs ! j) < length (xs ! i))" if ne: "xs \<noteq> []" for xs
  proof -
    from chooseLongest_loop_first_longest [OF ne] obtain i where
      i: "i < length xs" "fst (chooseLongest_loop xs 0 (- 1) (- 1)) = int i"
         "\<forall>j<length xs. length (xs ! j) \<le> length (xs ! i)"
         "\<forall>j<i. length (xs ! j) < length (xs ! i)"
      by blast
    from ne i(1,2) have "chooseLongest xs = Some (xs ! i)"
      by (simp add: chooseLongest_def Let_def)
    with i show ?thesis by blast
  qed
  have empty: "s1 = [] \<longrightarrow> chooseLongest s1 = Some ''''"
    by (simp add: chooseLongest_def)
  have chars: "\<exists>i<length s1. chooseLongest s1 = Some (s1 ! i) \<and>
         (\<forall>j<length s1. characterLength (s1 ! j) \<le> characterLength (s1 ! i)) \<and>
         (\<forall>j<i. characterLength (s1 ! j) < characterLength (s1 ! i))"
    if ne: "s1 \<noteq> []" and ascii: "list_all isASCII s1"
  proof -
    have c: "characterLength (s1 ! j) = length (s1 ! j)" if "j < length s1" for j
      using ascii that by (simp add: characterLength_ascii list_all_length)
    from bytes [OF ne] obtain i where
      i: "i < length s1" "chooseLongest s1 = Some (s1 ! i)"
         "\<forall>j<length s1. length (s1 ! j) \<le> length (s1 ! i)"
         "\<forall>j<i. length (s1 ! j) < length (s1 ! i)"
      by blast
    have "\<forall>j<length s1. characterLength (s1 ! j) \<le> characterLength (s1 ! i)"
      using i(1,3) c by simp
    moreover have "\<forall>j<i. characterLength (s1 ! j) < characterLength (s1 ! i)"
      using i(1,4) c by simp
    ultimately show ?thesis using i(1,2) by blast
  qed
  have user: "\<exists>i<3. GetUserID lp = [UserIDPath lp, UserIDQuery lp, UserIDBody lp] ! i \<and>
      (\<forall>j<3. length ([UserIDPath lp, UserIDQuery lp, UserIDBody lp] ! j) \<le> length (GetUserID lp)) \<and>
      (\<forall>j<i. length ([UserIDPath lp, UserIDQuery lp, UserIDBody lp] ! j) < length (GetUserID lp))"
  proof -
    let ?xs = "[UserIDPath lp, UserIDQuery lp, UserIDBody lp]"
    have "?xs \<noteq> []" by simp
    from bytes [OF this] obtain i where
      i: "i < length ?xs" "chooseLongest ?xs = Some (?xs ! i)"
         "\<forall>j<length ?xs. length (?xs ! j) \<le> length (?xs ! i)"
         "\<forall>j<i. length (?xs ! j) < length (?xs ! i)"
      by blast
    from i(2) have g: "GetUserID lp = ?xs ! i"
      by (simp add: GetUserID_def returned_def)
    from i(1) have i3: "i < 3" by simp
    from i(3) have le: "\<forall>j<3. length (?xs ! j) \<le> length (?xs ! i)" by simp
    show ?thesis
      unfolding g using i3 le i(4) by blast
  qed
  have ex1: "chooseLongest [''1'', ''22'', ''''] = Some ''22''"
    by (simp add: chooseLongest_def)
  have ex2: "chooseLongest [''abc'', ''de'', ''fghij''] = Some ''fghij''"
    by (simp add: chooseLongest_def)
  from empty bytes chars user ex1 ex2 show ?thesis by blast
qed

theorem chooseLongest_first_of_longest_witness:
  "[''ab'', ''xyz'', ''c'', ''uvw''] \<noteq> [] \<and> list_all isASCII [''ab'', ''xyz'', ''c'', ''uvw''] \<and>
   (\<exists>i<length [''ab'', ''xyz'', ''c'', ''uvw''].
      chooseLongest [''ab'', ''xyz'', ''c'', ''uvw''] = Some ([''ab'', ''xyz'', ''c'', ''uvw''] ! i) \<and>
      (\<forall>j<length [''ab'', ''xyz'', ''c'', ''uvw''].
         characterLength ([''ab'', ''xyz'', ''c'', ''uvw''] ! j)
           \<le> characterLength ([''ab'', ''xyz'', ''c'', ''uvw''] ! i)) \<and>
      (\<forall>j<i. characterLength ([''ab'', ''xyz'', ''c'', ''uvw''] ! j)
         < characterLength ([''ab'', ''xyz'', ''c'', ''uvw''] ! i))) \<and>
   (\<exists>i<length [''ab'', ''xyz'', ''c'', ''uvw''].
      chooseLongest [''ab'', ''xyz'', ''c'', ''uvw''] = Some ([''ab'', ''xyz'', ''c'', ''uvw''] ! i) \<and>
      (\<forall>j<length [''ab'', ''xyz'', ''c'', ''uvw''].
         length ([''ab'', ''xyz'', ''c'', ''uvw''] ! j) \<le> length ([''ab'', ''xyz'', ''c'', ''uvw''] ! i)) \<and>
      (\<forall>j<i. length ([''ab'', ''xyz'', ''c'', ''uvw''] ! j)
         < length ([''ab'', ''xyz'', ''c'', ''uvw''] ! i))) \<and>
   chooseLongest [''ab'', ''xyz'', ''c'', ''uvw''] = Some ''xyz'' \<and>
   (\<exists>i<3. GetUserID (zeroUserID ''1'' ''22'' '''') = [''1'', ''22'', ''''] ! i) \<and>
   GetUserID (zeroUserID ''1'' ''22'' '''') = ''22''"
proof -
  have ne: "[''ab'', ''xyz'', ''c'', ''uvw''] \<noteq> []" by simp
  have ascii: "list_all isASCII [''ab'', ''xyz'', ''c'', ''uvw'']"
    by (simp add: isASCII_def)
  have val: "chooseLongest [''ab'', ''xyz'', ''c'', ''uvw''] = Some ''xyz''"
    by (simp add: chooseLongest_def)
  have f: "UserIDPath (zeroUserID ''1'' ''22'' '''') = ''1''"
    "UserIDQuery (zeroUserID ''1'' ''22'' '''') = ''22''"
    "UserIDBody (zeroUserID ''1'' ''22'' '''') = ''''"
    by (simp_all add: zeroUserID_def)
  note t = chooseLongest_first_of_longest [of "[''ab'', ''xyz'', ''c'', ''uvw'']"
      "zeroUserID ''1'' ''22'' ''''", unfolded f]
  from t obtain i where i: "i < 3" "GetUserID (zeroUserID ''1'' ''22'' '''') = [''1'', ''22'', ''''] ! i"
    "\<forall>j<3. length ([''1'', ''22'', ''''] ! j) \<le> length (GetUserID (zeroUserID ''1'' ''22'' ''''))"
    by blast
  have u: "GetUserID (zeroUserID ''1'' ''22'' '''') = ''22''"
  proof -
    from i(3) [rule_format, of 1]
    have "length ([''1'', ''22'', ''''] ! 1) \<le> length (GetUserID (zeroUserID ''1'' ''22'' ''''))"
      by simp
    then have two: "2 \<le> length ([''1'', ''22'', ''''] ! i)"
      unfolding i(2) by simp
    from i(1) have "i = 0 \<or> i = 1 \<or> i = 2" by auto
    with two have "i = 1" by auto
    with i(2) show ?thesis by simp
  qed
  from i(1,2) have e: "\<exists>i<3. GetUserID (zeroUserID ''1'' ''22'' '''') = [''1'', ''22'', ''''] ! i"
    by blast
  from t ne ascii val u e show ?thesis by blast
qed

section \<open>The response builder: bodies and statuses\<close>

lemma json_Marshal_HTTPError:
  "json_Marshal E (HTTPErrorValue e) = Some (errorWireFormat E (Status e) (Message e))"
  by (simp add: json_Marshal_def errorWireFormat_def)

lemma Custom_marshalled:
  "json_Marshal E d = Some b \<Longrightarrow>
     Custom E s h d =
       (\<lparr>StatusCode = s,
         Headers = addCors E ((givenHeaders h)(ContentTypeKey \<mapsto> ''application/json; charset=UTF-8'')),
         MultiValueHeaders = Map.empty, Body = b, IsBase64Encoded = False\<rparr>, None)"
  by (simp add: Custom_def givenHeaders_def)

text \<open>
  When \<open>json.Marshal\<close> fails, whatever the status asked for, the headers and the value, and
  without a look at \<open>ExposeServerErrors\<close>, the status is 500 and the body is the literal of
  the source.
\<close>

lemma Custom_marshal_failure:
  \<open>json_Marshal E d = None \<Longrightarrow>
     Custom E s h d =
       (\<lparr>StatusCode = 500,
         Headers = addCors E ((givenHeaders h)(ContentTypeKey \<mapsto> ''application/json; charset=UTF-8'')),
         MultiValueHeaders = Map.empty,
         Body = ''{"code":500,"message":"the server has encountered an unexpected error"}'',
         IsBase64Encoded = False\<rparr>, None)\<close>
  by (simp add: Custom_def givenHeaders_def)

lemma Itoa_examples: "Itoa 500 = ''500''" "Itoa 404 = ''404''" "Itoa 400 = ''400''"
  by (simp_all add: Itoa_def natstr.simps digit_def)

text \<open>
  Claim C1. On a value that \<open>json.Marshal\<close> rejects, \<open>Custom\<close> answers 500 whatever status
  was asked for (418 here), but the body is not the generic error in the error wire
  format \<open>{"status": ..., "message": ...}\<close>: the literal of the source names the first field
  \<open>code\<close>, while an \<open>HTTPError\<close> is written with the field \<open>status\<close>.
\<close>

theorem Custom_marshal_failure_code_key:
  \<open>jsonOther exampleExtern () = None \<and>
   StatusCode (fst (Custom exampleExtern 418 (Some Map.empty) (Value ()))) = 500 \<and>
   Body (fst (Custom exampleExtern 418 (Some Map.empty) (Value ())))
     = ''{"code":500,"message":"the server has encountered an unexpected error"}'' \<and>
   errorWireFormat exampleExtern 500 ''the server has encountered an unexpected error''
     = ''{"status":500,"message":"the server has encountered an unexpected error"}'' \<and>
   Body (fst (Custom exampleExtern 418 (Some Map.empty) (Value ())))
     \<noteq> errorWireFormat exampleExtern 500 ''the server has encountered an unexpected error''\<close>
proof -
  have f: "json_Marshal exampleExtern (Value ()) = None"
    by (simp add: json_Marshal_def exampleExtern_def)
  have w: \<open>errorWireFormat exampleExtern 500 ''the server has encountered an unexpected error''
     = ''{"status":500,"message":"the server has encountered an unexpected error"}''\<close>
    by (simp add: errorWireFormat_def Itoa_examples exampleExtern_def)
  have o: "jsonOther exampleExtern () = None"
    by (simp add: exampleExtern_def)
  note c = Custom_marshal_failure [OF f, of 418 "Some Map.empty"]
  show ?thesis
    unfolding w c using o by simp
qed

lemma Error_resolved:
  "Error E err =
     (let h = (case errors_As err of Some h \<Rightarrow> h | None \<Rightarrow> \<lparr>Status = 500, Message = Error_text err\<rparr>);
          m = (if Status h \<ge> 500 \<and> \<not> ExposeServerErrors E then StatusText E (Status h) else Message h)
      in (\<lparr>StatusCode = Status h,
           Headers = addCors E (Map.empty(ContentTypeKey \<mapsto> ''application/json; charset=UTF-8'')),
           MultiValueHeaders = Map.empty, Body = errorWireFormat E (Status h) m,
           IsBase64Encoded = False\<rparr>, None))"
  by (simp add: Error_def Let_def Custom_marshalled [OF json_Marshal_HTTPError] givenHeaders_def)

lemma StatusAndError_resolved:
  "StatusAndError E s err =
     (let m = (if s \<ge> 500 \<and> \<not> ExposeServerErrors E then StatusText E s else Error_text err)
      in (\<lparr>StatusCode = s,
           Headers = addCors E (Map.empty(ContentTypeKey \<mapsto> ''application/json; charset=UTF-8'')),
           MultiValueHeaders = Map.empty, Body = errorWireFormat E s m,
           IsBase64Encoded = False\<rparr>, None))"
  by (simp add: StatusAndError_def Let_def Custom_marshalled [OF json_Marshal_HTTPError] givenHeaders_def)

text \<open>
  Claim C2. \<open>Error\<close> resolves its argument to an \<open>HTTPError\<close> \<open>h\<close>: the first one on the chain
  of the error, or status 500 with the text of the error. \<open>StatusAndError\<close> takes the status
  it is given and the text of the error. In both, the response has the resolved status;
  when that status is 500 or above and \<open>ExposeServerErrors\<close> is false the message in the
  body is \<open>http.StatusText\<close> of the status; in every other case, so for every status below
  500, it is the original message.
\<close>

theorem Error_message_exposure:
  fixes E :: "('a, 'c) extern" and err :: error
  defines "h \<equiv> (case errors_As err of Some h \<Rightarrow> h
                 | None \<Rightarrow> \<lparr>Status = 500, Message = Error_text err\<rparr>)"
  shows "StatusCode (fst (Error E err)) = Status h \<and>
         (Status h \<ge> 500 \<and> \<not> ExposeServerErrors E \<longrightarrow>
            Body (fst (Error E err)) = errorWireFormat E (Status h) (StatusText E (Status h))) \<and>
         (Status h < 500 \<or> ExposeServerErrors E \<longrightarrow>
            Body (fst (Error E err)) = errorWireFormat E (Status h) (Message h)) \<and>
         StatusCode (fst (StatusAndError E s err)) = s \<and>
         (s \<ge> 500 \<and> \<not> ExposeServerErrors E \<longrightarrow>
            Body (fst (StatusAndError E s err)) = errorWireFormat E s (StatusText E s)) \<and>
         (s < 500 \<or> ExposeServerErrors E \<longrightarrow>
            Body (fst (StatusAndError E s err)) = errorWireFormat E s (Error_text err))"
  unfolding h_def by (auto simp: Error_resolved StatusAndError_resolved Let_def)

theorem Error_message_exposure_witness:
  \<open>(500::int) \<ge> 500 \<and> \<not> ExposeServerErrors exampleExtern \<and>
   Body (fst (Error exampleExtern (ErrorHTTP \<lparr>Status = 500, Message = ''database down''\<rparr>)))
     = ''{"status":500,"message":"Internal Server Error"}'' \<and>
   ((404::int) < 500 \<or> ExposeServerErrors exampleExtern) \<and>
   Body (fst (StatusAndError exampleExtern 404 (ErrorString ''no such book'')))
     = ''{"status":404,"message":"no such book"}''\<close>
proof -
  have x: "\<not> ExposeServerErrors exampleExtern"
    by (simp add: exampleExtern_def)
  have w: \<open>errorWireFormat exampleExtern 500 (StatusText exampleExtern 500)
             = ''{"status":500,"message":"Internal Server Error"}''\<close>
    \<open>errorWireFormat exampleExtern 404 ''no such book'' = ''{"status":404,"message":"no such book"}''\<close>
    by (simp_all add: errorWireFormat_def Itoa_examples exampleExtern_def)
  from Error_message_exposure [where E = exampleExtern and s = 404
      and err = "ErrorHTTP \<lparr>Status = 500, Message = ''database down''\<rparr>"]
    Error_message_exposure [where E = exampleExtern and s = 404
      and err = "ErrorString ''no such book''"] x w
  show ?thesis by simp
qed

section \<open>The middleware\<close>

text \<open>
  Claim C3. When the header map of the request has no \<open>Authorization\<close> entry, both
  \<open>DecodeStandardMW\<close> and \<open>DecodeExpandedMW\<close> return the response of
  \<open>StatusAndError(400, ErrNoAuthorizationHeader)\<close> and leave the log as it was: the result
  does not depend on the next handler, which is not called. That response has status 400,
  a nil error, and a body whose message is the text of the missing-header error (400 is
  below 500, so the text is never replaced).
\<close>

theorem Decode_missing_Authorization:
  assumes "ReqHeaders req ''Authorization'' = None"
  shows "DecodeStandardMW E next ctx req lg = (StatusAndError E 400 (ErrNoAuthorizationHeader E), lg) \<and>
         DecodeExpandedMW E next ctx req lg = (StatusAndError E 400 (ErrNoAuthorizationHeader E), lg) \<and>
         StatusCode (fst (StatusAndError E 400 (ErrNoAuthorizationHeader E))) = 400 \<and>
         Body (fst (StatusAndError E 400 (ErrNoAuthorizationHeader E)))
           = errorWireFormat E 400 (Error_text (ErrNoAuthorizationHeader E)) \<and>
         snd (StatusAndError E 400 (ErrNoAuthorizationHeader E)) = None"
  using assms
  by (simp add: DecodeStandardMW_def DecodeExpandedMW_def ExtractJWT_def StatusAndErrorRes_def
      StatusAndError_resolved)

theorem Decode_missing_Authorization_witness:
  \<open>ReqHeaders exampleRequest ''Authorization'' = None \<and>
   DecodeStandardMW exampleExtern exampleNext Map.empty exampleRequest []
     = (StatusAndError exampleExtern 400 (ErrorString ''no authorization header''), []) \<and>
   DecodeExpandedMW exampleExtern exampleNext Map.empty exampleRequest []
     = (StatusAndError exampleExtern 400 (ErrorString ''no authorization header''), []) \<and>
   Body (fst (StatusAndError exampleExtern 400 (ErrorString ''no authorization header'')))
     = ''{"status":400,"message":"no authorization header"}''\<close>
proof -
  have a: "ReqHeaders exampleRequest ''Authorization'' = None"
    by (simp add: exampleRequest_def)
  have e: "ErrNoAuthorizationHeader exampleExtern = ErrorString ''no authorization header''"
    by (simp add: exampleExtern_def)
  have w: \<open>errorWireFormat exampleExtern 400 ''no authorization header''
             = ''{"status":400,"message":"no authorization header"}''\<close>
    by (simp add: errorWireFormat_def Itoa_examples exampleExtern_def)
  from Decode_missing_Authorization [OF a, of exampleExtern exampleNext Map.empty "[]"] a w
  show ?thesis unfolding e by simp
qed

text \<open>
  Claim C10. \<open>AllowOptionsMW\<close> takes no next handler: it is a handler itself. For every
  context and every request, whatever its HTTP method, it returns the response of \<open>Empty\<close>:
  status 200, the body \<open>{}\<close>, a nil error; and it logs nothing.
\<close>

theorem AllowOptionsMW_always_200:
  "AllowOptionsMW E ctx req lg =
     ((\<lparr>StatusCode = 200,
        Headers = addCors E (Map.empty(ContentTypeKey \<mapsto> ''application/json; charset=UTF-8'')),
        MultiValueHeaders = Map.empty, Body = ''{}'', IsBase64Encoded = False\<rparr>, None), lg)"
  by (simp add: AllowOptionsMW_def EmptyRes_def Empty_def Custom_def json_Marshal_def)

subsection \<open>Context injection and a request that cannot be unmarshalled\<close>

lemma InjectLambdaContextMW_part_000_calls_next:
  "InjectLambdaContextMW_part_000 E next ctx req lg =
     next (addToContext ctx (lambdaContextVals E (fst (UnmarshalReq E req True)) req)) req lg"
  by (simp add: InjectLambdaContextMW_part_000_def split: prod.splits)

lemma InjectLambdaContextMW_unmarshal_error:
  "snd (UnmarshalReq E req True) = Some e \<Longrightarrow>
     InjectLambdaContextMW E next ctx req lg = (Error E e, lg)"
  by (cases "UnmarshalReq E req True") (simp add: InjectLambdaContextMW_def ErrorRes_def)

text \<open>
  Claim C4. On a request whose body cannot be unmarshalled (the truncated body \<open>{\<close>),
  \<open>InjectLambdaContextMW\<close> of src/lmw/lmw.go does not call the next handler: it returns the
  response of \<open>Error\<close> for the unmarshal error, status 500, and the log shows that the
  handler did not run. \<open>InjectLambdaContextMW\<close> of src/unnamed/part_000 drops the error and
  returns what the next handler returns, on the same request.
\<close>

theorem InjectLambdaContextMW_unmarshal_error_response:
  \<open>UnmarshalReq exampleExtern exampleRequest True
     = (zeroLambdaParams, Some (ErrorString ''unexpected end of JSON input'')) \<and>
   InjectLambdaContextMW exampleExtern exampleNext Map.empty exampleRequest []
     = (Error exampleExtern (ErrorString ''unexpected end of JSON input''), []) \<and>
   StatusCode (fst (fst (InjectLambdaContextMW exampleExtern exampleNext Map.empty exampleRequest [])))
     = 500 \<and>
   Body (fst (fst (InjectLambdaContextMW exampleExtern exampleNext Map.empty exampleRequest [])))
     = ''{"status":500,"message":"Internal Server Error"}'' \<and>
   InjectLambdaContextMW_part_000 exampleExtern exampleNext Map.empty exampleRequest []
     = ((exampleResponse, None), [handlerRan])\<close>
proof -
  have u: "UnmarshalReq exampleExtern exampleRequest True
     = (zeroLambdaParams, Some (ErrorString ''unexpected end of JSON input''))"
    by (simp add: exampleExtern_def exampleUnmarshalReq_def exampleRequest_def zeroLambdaParams_def)
  then have s: "snd (UnmarshalReq exampleExtern exampleRequest True)
     = Some (ErrorString ''unexpected end of JSON input'')"
    by simp
  have x: "\<not> ExposeServerErrors exampleExtern"
    by (simp add: exampleExtern_def)
  have w: \<open>errorWireFormat exampleExtern 500 (StatusText exampleExtern 500)
             = ''{"status":500,"message":"Internal Server Error"}''\<close>
    by (simp add: errorWireFormat_def Itoa_examples exampleExtern_def)
  have r: \<open>StatusCode (fst (Error exampleExtern (ErrorString ''unexpected end of JSON input''))) = 500\<close>
    \<open>Body (fst (Error exampleExtern (ErrorString ''unexpected end of JSON input'')))
       = ''{"status":500,"message":"Internal Server Error"}''\<close>
    using x w by (simp_all add: Error_resolved)
  have p: "InjectLambdaContextMW_part_000 exampleExtern exampleNext Map.empty exampleRequest []
     = ((exampleResponse, None), [handlerRan])"
    by (simp add: InjectLambdaContextMW_part_000_calls_next exampleNext_def)
  show ?thesis
    using u r p by (simp add: InjectLambdaContextMW_unmarshal_error [OF s])
qed

subsection \<open>Request logging\<close>

lemma LogRequestMW_result:
  "fst (LogRequestMW E next ctx req lg) = fst (next ctx req lg)"
  by (simp add: LogRequestMW_def Let_def split: prod.splits option.splits)

lemma LogRequestMW_log:
  "\<exists>evs. evs \<noteq> [] \<and> snd (LogRequestMW E next ctx req lg) = snd (next ctx req lg) @ evs"
  by (simp add: LogRequestMW_def Let_def split: prod.splits option.splits)

lemma LogRequestMW_part_000_result:
  "fst (LogRequestMW_part_000 E next ctx req lg)
     = (case snd (fst (next ctx req lg)) of
          None \<Rightarrow> fst (next ctx req lg)
        | Some e \<Rightarrow> ((fst (fst (next ctx req lg)))\<lparr>StatusCode := 500\<rparr>, Some e))"
proof -
  obtain res err lg' where n: "next ctx req lg = ((res, err), lg')"
    by (metis surj_pair)
  show ?thesis
    by (cases err) (simp_all add: LogRequestMW_part_000_def n Let_def)
qed

lemma LogRequestMW_part_000_log:
  "\<exists>ev. snd (LogRequestMW_part_000 E next ctx req lg) = snd (next ctx req lg) @ [ev]"
  by (simp add: LogRequestMW_part_000_def Let_def split: prod.splits option.splits)

text \<open>
  Claim C5, as stated, fails for \<open>LogRequestMW\<close> of src/unnamed/part_000: when the next
  handler returns a response with status 200 together with an error, the middleware returns
  the response with status 500.
\<close>

theorem LogRequestMW_part_000_alters_status:
  "fst (failingNext Map.empty exampleRequest []) = (exampleResponse, Some (ErrorString ''boom'')) \<and>
   StatusCode exampleResponse = 200 \<and>
   StatusCode (fst (fst (LogRequestMW_part_000 exampleExtern failingNext Map.empty exampleRequest [])))
     = 500 \<and>
   fst (LogRequestMW_part_000 exampleExtern failingNext Map.empty exampleRequest [])
     \<noteq> fst (failingNext Map.empty exampleRequest [])"
  by (simp add: LogRequestMW_part_000_result failingNext_def exampleResponse_def)

text \<open>
  Claim C5, amended. \<open>LogRequestMW\<close> of src/lmw/lmw.go returns the response and the error
  of the next handler unchanged. \<open>LogRequestMW\<close> of src/unnamed/part_000 returns the error
  unchanged, and the response unchanged in its headers, multi-value headers, body and
  base64 flag; its status code is the one of the next handler when that handler returns no
  error, and 500 when it returns an error. Both log after the next handler has returned:
  the log is the log of the next handler followed by the events of the middleware.
\<close>

theorem LogRequestMW_returns_next_result:
  "fst (LogRequestMW E next ctx req lg) = fst (next ctx req lg) \<and>
   (\<exists>evs. evs \<noteq> [] \<and> snd (LogRequestMW E next ctx req lg) = snd (next ctx req lg) @ evs) \<and>
   snd (fst (LogRequestMW_part_000 E next ctx req lg)) = snd (fst (next ctx req lg)) \<and>
   Headers (fst (fst (LogRequestMW_part_000 E next ctx req lg)))
     = Headers (fst (fst (next ctx req lg))) \<and>
   MultiValueHeaders (fst (fst (LogRequestMW_part_000 E next ctx req lg)))
     = MultiValueHeaders (fst (fst (next ctx req lg))) \<and>
   Body (fst (fst (LogRequestMW_part_000 E next ctx req lg))) = Body (fst (fst (next ctx req lg))) \<and>
   IsBase64Encoded (fst (fst (LogRequestMW_part_000 E next ctx req lg)))
     = IsBase64Encoded (fst (fst (next ctx req lg))) \<and>
   StatusCode (fst (fst (LogRequestMW_part_000 E next ctx req lg)))
     = (if snd (fst (next ctx req lg)) = None then StatusCode (fst (fst (next ctx req lg))) else 500) \<and>
   (\<exists>ev. snd (LogRequestMW_part_000 E next ctx req lg) = snd (next ctx req lg) @ [ev])"
  using LogRequestMW_log [of E "next" ctx req lg] LogRequestMW_part_000_log [of E "next" ctx req lg]
  by (simp add: LogRequestMW_result LogRequestMW_part_000_result split: option.splits)

theorem LogRequestMW_returns_next_result_witness:
  "fst (LogRequestMW exampleExtern failingNext Map.empty exampleRequest [])
     = (exampleResponse, Some (ErrorString ''boom'')) \<and>
   snd (fst (LogRequestMW_part_000 exampleExtern failingNext Map.empty exampleRequest []))
     = Some (ErrorString ''boom'') \<and>
   Body (fst (fst (LogRequestMW_part_000 exampleExtern failingNext Map.empty exampleRequest [])))
     = ''done'' \<and>
   StatusCode (fst (fst (LogRequestMW_part_000 exampleExtern failingNext Map.empty exampleRequest [])))
     = 500 \<and>
   StatusCode (fst (fst (LogRequestMW_part_000 exampleExtern exampleNext Map.empty exampleRequest [])))
     = 200"
proof -
  have f: "fst (failingNext Map.empty exampleRequest []) = (exampleResponse, Some (ErrorString ''boom''))"
    by (simp add: failingNext_def)
  have g: "fst (exampleNext Map.empty exampleRequest []) = (exampleResponse, None)"
    by (simp add: exampleNext_def)
  have r: "Body exampleResponse = ''done''" "StatusCode exampleResponse = 200"
    by (simp_all add: exampleResponse_def)
  from LogRequestMW_returns_next_result [of exampleExtern failingNext Map.empty exampleRequest "[]"]
    LogRequestMW_returns_next_result [of exampleExtern exampleNext Map.empty exampleRequest "[]"]
  show ?thesis
    unfolding f g by (simp add: r)
qed

section \<open>CORS injection\<close>

lemma cors_keys_distinct:
  "CORSHeadersHeaderKey \<noteq> CORSMethodsHeaderKey" "CORSHeadersHeaderKey \<noteq> CORSOriginHeaderKey"
  "CORSMethodsHeaderKey \<noteq> CORSOriginHeaderKey" "CORSMethodsHeaderKey \<noteq> CORSHeadersHeaderKey"
  "CORSOriginHeaderKey \<noteq> CORSHeadersHeaderKey" "CORSOriginHeaderKey \<noteq> CORSMethodsHeaderKey"
  "CORSHeadersHeaderKey \<noteq> ContentTypeKey" "CORSMethodsHeaderKey \<noteq> ContentTypeKey"
  "CORSOriginHeaderKey \<noteq> ContentTypeKey"
  by (simp_all add: CORSHeadersHeaderKey_def CORSMethodsHeaderKey_def CORSOriginHeaderKey_def
      ContentTypeKey_def)

lemma addCors_lookup:
  "addCors E headers CORSHeadersHeaderKey =
     (if Getenv E CORSHeadersEnvKey \<noteq> '''' then Some (Getenv E CORSHeadersEnvKey)
      else headers CORSHeadersHeaderKey)"
  "addCors E headers CORSMethodsHeaderKey =
     (if Getenv E CORSMethodsEnvKey \<noteq> '''' then Some (Getenv E CORSMethodsEnvKey)
      else headers CORSMethodsHeaderKey)"
  "addCors E headers CORSOriginHeaderKey =
     (if Getenv E CORSOriginEnvKey \<noteq> '''' then Some (Getenv E CORSOriginEnvKey)
      else headers CORSOriginHeaderKey)"
  by (simp_all add: addCors_def Let_def cors_keys_distinct)

lemma addCors_other:
  "k \<noteq> CORSHeadersHeaderKey \<Longrightarrow> k \<noteq> CORSMethodsHeaderKey \<Longrightarrow> k \<noteq> CORSOriginHeaderKey \<Longrightarrow>
     addCors E headers k = headers k"
  by (simp add: addCors_def Let_def)

lemma corsInjected_addCors:
  assumes "given CORSHeadersHeaderKey = headers CORSHeadersHeaderKey"
    and "given CORSMethodsHeaderKey = headers CORSMethodsHeaderKey"
    and "given CORSOriginHeaderKey = headers CORSOriginHeaderKey"
  shows "corsInjected E given (addCors E headers)"
  using assms by (simp add: corsInjected_def corsPairs_def addCors_lookup)

lemma corsInjected_content_type:
  "corsInjected E (givenHeaders h) (addCors E ((givenHeaders h)(ContentTypeKey \<mapsto> ct)))"
  by (rule corsInjected_addCors) (simp_all add: cors_keys_distinct)

lemma Custom_headers:
  "Headers (fst (Custom E s h d)) =
     addCors E ((givenHeaders h)(ContentTypeKey \<mapsto> ''application/json; charset=UTF-8''))"
  by (cases "json_Marshal E d") (simp_all add: Custom_marshalled Custom_marshal_failure)

lemma File_headers:
  "Headers (fst (File E ct h b)) = addCors E ((givenHeaders h)(ContentTypeKey \<mapsto> ct))"
  "Headers (fst (FileB64 E ct h b)) = addCors E ((givenHeaders h)(ContentTypeKey \<mapsto> ct))"
  by (simp_all add: File_def FileB64_def givenHeaders_def split: option.splits)

text \<open>
  Claim C7. For every builder (\<open>Custom\<close>, \<open>Success\<close>, \<open>Empty\<close>, \<open>Error\<close>, \<open>StatusAndError\<close>,
  \<open>File\<close>, \<open>FileB64\<close>) and each of the three CORS variables: when the variable is not empty as
  the response is built, the header of that name in the response has its value, whatever
  the header map given to the builder held under that name; when it is empty, the header
  is what the given map held (nothing, for the builders that take no header map).
\<close>

theorem builders_inject_cors:
  "corsInjected E (givenHeaders h) (Headers (fst (Custom E s h d))) \<and>
   corsInjected E Map.empty (Headers (fst (Success E d))) \<and>
   corsInjected E Map.empty (Headers (fst (Empty E))) \<and>
   corsInjected E Map.empty (Headers (fst (Error E err))) \<and>
   corsInjected E Map.empty (Headers (fst (StatusAndError E s err))) \<and>
   corsInjected E (givenHeaders h) (Headers (fst (File E contentType h fileBytes))) \<and>
   corsInjected E (givenHeaders h) (Headers (fst (FileB64 E contentType h fileBytes)))"
proof -
  have none: "corsInjected E Map.empty
      (addCors E (Map.empty(ContentTypeKey \<mapsto> ''application/json; charset=UTF-8'')))"
    using corsInjected_content_type [of E None] by (simp add: givenHeaders_def)
  have nil: "givenHeaders None = Map.empty"
    by (simp add: givenHeaders_def)
  show ?thesis
    by (simp add: Custom_headers File_headers Success_def Empty_def Error_def StatusAndError_def
        Let_def corsInjected_content_type nil none)
qed

theorem builders_inject_cors_witness:
  "Getenv starEnv CORSOriginEnvKey \<noteq> '''' \<and> Getenv starEnv CORSMethodsEnvKey = '''' \<and>
   Headers (fst (File starEnv ''text/csv''
       (Some [CORSOriginHeaderKey \<mapsto> ''https://old'', CORSMethodsHeaderKey \<mapsto> ''GET''])
       ''a,b'')) CORSOriginHeaderKey = Some ''*'' \<and>
   Headers (fst (File starEnv ''text/csv''
       (Some [CORSOriginHeaderKey \<mapsto> ''https://old'', CORSMethodsHeaderKey \<mapsto> ''GET''])
       ''a,b'')) CORSMethodsHeaderKey = Some ''GET'' \<and>
   Headers (fst (Error starEnv (ErrorString ''x''))) CORSOriginHeaderKey = Some ''*'' \<and>
   Headers (fst (Error starEnv (ErrorString ''x''))) CORSMethodsHeaderKey = None"
proof -
  have g: "Getenv starEnv CORSOriginEnvKey = ''*''" "Getenv starEnv CORSMethodsEnvKey = ''''"
    "Getenv starEnv CORSHeadersEnvKey = ''''"
    by (simp_all add: starEnv_def exampleExtern_def CORSOriginEnvKey_def CORSMethodsEnvKey_def
        CORSHeadersEnvKey_def)
  from builders_inject_cors [of starEnv
      "Some [CORSOriginHeaderKey \<mapsto> ''https://old'', CORSMethodsHeaderKey \<mapsto> ''GET'']"
      0 EmptyStruct "ErrorString ''x''" "''text/csv''" "''a,b''"]
  show ?thesis
    by (simp add: corsInjected_def corsPairs_def g givenHeaders_def cors_keys_distinct)
qed

section \<open>The transport adapter\<close>

lemma convertMap_loop_lookup:
  "distinct (map fst inp) \<Longrightarrow>
     convertMap_loop inp sv k =
       (case map_of inp k of
          None \<Rightarrow> sv k
        | Some vs \<Rightarrow> if length vs = 1 then Some (vs ! 0) else sv k)"
proof (induction inp arbitrary: sv)
  case Nil
  then show ?case by simp
next
  case (Cons e inp)
  obtain k' v' where e: "e = (k', v')" by (cases e)
  from Cons.prems e have d: "distinct (map fst inp)" and fresh: "k' \<notin> fst ` set inp"
    by simp_all
  from fresh have nf: "map_of inp k' = None"
    by (simp add: map_of_eq_None_iff)
  show ?case
    using Cons.IH [OF d] nf by (auto simp: e split: option.splits)
qed

lemma length_one_iff: "(length vs = 1 \<and> vs ! 0 = v) \<longleftrightarrow> vs = [v]"
  by (cases vs) auto

text \<open>
  Claim C8. For a multi-valued map (each key once among its entries, in any order),
  \<open>convertMap\<close> maps a key to \<open>v\<close> exactly when the input holds the one-element list \<open>[v]\<close>
  under that key; a key with no value, with two or more values, or absent from the input
  is absent from the result. The event \<open>ServeHTTP\<close> builds carries the multi-valued header
  and query maps whole, and the results of \<open>convertMap\<close> as the single-valued maps.
\<close>

theorem convertMap_exactly_one_value:
  assumes "distinct (map fst inp)"
  shows "(convertMap inp k = Some v \<longleftrightarrow> map_of inp k = Some [v]) \<and>
         (convertMap inp k = None \<longleftrightarrow> (\<forall>v. map_of inp k \<noteq> Some [v])) \<and>
         (ServeHTTP_event E r = Some ev \<longrightarrow>
            ReqMultiValueHeaders ev = map_of (Header r) \<and>
            MultiValueQueryStringParameters ev = map_of (URLQuery r) \<and>
            ReqHeaders ev = convertMap (Header r) \<and>
            QueryStringParameters ev = convertMap (URLQuery r))"
proof (intro conjI)
  have l: "convertMap inp k =
       (case map_of inp k of None \<Rightarrow> None
        | Some vs \<Rightarrow> if length vs = 1 then Some (vs ! 0) else None)"
    using convertMap_loop_lookup [OF assms] by (simp add: convertMap_def)
  show a: "convertMap inp k = Some v \<longleftrightarrow> map_of inp k = Some [v]"
    unfolding l using length_one_iff [of _ v] by (auto split: option.splits)
  show "convertMap inp k = None \<longleftrightarrow> (\<forall>v. map_of inp k \<noteq> Some [v])"
    unfolding l by (auto simp: length_Suc_conv split: option.splits)
  show "ServeHTTP_event E r = Some ev \<longrightarrow>
            ReqMultiValueHeaders ev = map_of (Header r) \<and>
            MultiValueQueryStringParameters ev = map_of (URLQuery r) \<and>
            ReqHeaders ev = convertMap (Header r) \<and>
            QueryStringParameters ev = convertMap (URLQuery r)"
    by (auto simp: ServeHTTP_event_def Let_def split: sum.splits if_splits)
qed

theorem convertMap_exactly_one_value_witness:
  "distinct (map fst (URLQuery exampleHTTPRequest)) \<and>
   convertMap (URLQuery exampleHTTPRequest) ''id'' = Some ''7'' \<and>
   convertMap (URLQuery exampleHTTPRequest) ''tag'' = None \<and>
   convertMap (URLQuery exampleHTTPRequest) ''empty'' = None \<and>
   (\<exists>ev. ServeHTTP_event exampleExtern exampleHTTPRequest = Some ev \<and>
      MultiValueQueryStringParameters ev ''tag'' = Some [''a'', ''b''] \<and>
      MultiValueQueryStringParameters ev ''empty'' = Some [] \<and>
      QueryStringParameters ev ''tag'' = None \<and>
      ReqHeaders ev ''Host'' = Some ''localhost'')"
proof -
  have d: "distinct (map fst (URLQuery exampleHTTPRequest))"
    "distinct (map fst (Header exampleHTTPRequest))"
    by (simp_all add: exampleHTTPRequest_def)
  have m: "map_of (URLQuery exampleHTTPRequest) ''id'' = Some [''7'']"
    "map_of (URLQuery exampleHTTPRequest) ''tag'' = Some [''a'', ''b'']"
    "map_of (URLQuery exampleHTTPRequest) ''empty'' = Some []"
    "map_of (Header exampleHTTPRequest) ''Host'' = Some [''localhost'']"
    by (simp_all add: exampleHTTPRequest_def)
  obtain ev where ev: "ServeHTTP_event exampleExtern exampleHTTPRequest = Some ev"
    by (simp add: ServeHTTP_event_def exampleHTTPRequest_def Let_def Header_Get_def ContentTypeKey_def)
  from convertMap_exactly_one_value [OF d(1), of "''id''" "''7''" exampleExtern exampleHTTPRequest ev]
    convertMap_exactly_one_value [OF d(1), of "''tag''" _ exampleExtern exampleHTTPRequest ev]
    convertMap_exactly_one_value [OF d(1), of "''empty''" _ exampleExtern exampleHTTPRequest ev]
    convertMap_exactly_one_value [OF d(2), of "''Host''" "''localhost''" exampleExtern exampleHTTPRequest ev]
    d m ev
  show ?thesis by simp
qed

section \<open>What the context injection stores\<close>

lemma addToContext_step:
  "addToContext ctx ((k, v) # vals) =
     addToContext (if isNil v \<or> v = AnyString '''' then ctx else ctx(k \<mapsto> v)) vals"
  by (cases v) simp_all

lemma addToContext_lookup:
  "distinct (map fst vals) \<Longrightarrow>
     addToContext ctx vals k =
       (case map_of vals k of
          None \<Rightarrow> ctx k
        | Some v \<Rightarrow> if isNil v \<or> v = AnyString '''' then ctx k else Some v)"
proof (induction vals arbitrary: ctx)
  case Nil
  then show ?case by simp
next
  case (Cons e vals)
  obtain k' v' where e: "e = (k', v')" by (cases e)
  from Cons.prems e have d: "distinct (map fst vals)" and fresh: "k' \<notin> fst ` set vals"
    by simp_all
  from fresh have nf: "map_of vals k' = None"
    by (simp add: map_of_eq_None_iff)
  show ?case
    unfolding e addToContext_step using nf
    by (simp add: Cons.IH [OF d] split: option.splits)
qed

lemma addToContext_added:
  "addToContext ctx vals k = Some v \<Longrightarrow>
     ctx k = Some v \<or> ((k, v) \<in> set vals \<and> \<not> isNil v \<and> v \<noteq> AnyString '''')"
proof (induction vals arbitrary: ctx)
  case Nil
  then show ?case by simp
next
  case (Cons e vals)
  obtain k' v' where e: "e = (k', v')" by (cases e)
  let ?ctx = "if isNil v' \<or> v' = AnyString '''' then ctx else ctx(k' \<mapsto> v')"
  from Cons.prems have "addToContext ?ctx vals k = Some v"
    by (simp only: e addToContext_step)
  from Cons.IH [OF this] show ?case
    by (auto simp: e split: if_splits)
qed



lemma exampleVals:
  "lambdaContextVals exampleExtern zeroLambdaParams exampleRequest =
     [(''id'', AnyString ''''), (''method'', AnyString ''POST''), (''multiParams'', AnyMultiMap Map.empty),
      (''path'', AnyString ''/books''), (''pathParams'', AnyMap Map.empty),
      (''queryParams'', AnyMap Map.empty), (''requestId'', AnyString ''r-1''),
      (''userId'', AnyString ''''), (''userType'', AnyString '''')]"
  by (simp add: lambdaContextVals_def exampleExtern_def exampleKeyName_def exampleRequest_def
      zeroLambdaParams_def GetID_def GetUserID_def GetUserType_def chooseLongest_def returned_def)

lemma exampleUnmarshal:
  "UnmarshalReq exampleExtern exampleRequest True
     = (zeroLambdaParams, Some (ErrorString ''unexpected end of JSON input''))"
  "UnmarshalReq exampleExtern (exampleRequest\<lparr>ReqBody := ''''\<rparr>) True = (zeroLambdaParams, None)"
  by (simp_all add: exampleExtern_def exampleUnmarshalReq_def exampleRequest_def zeroLambdaParams_def)

text \<open>
  Claim C9, as stated, fails. With \<open>addToContext\<close> (src/unnamed/part_000) a request without
  path parameters leaves the key of the path parameters in the context with a map that has
  no entry. With \<open>InjectLambdaContextMW\<close> of src/lmw/lmw.go a request without an id leaves
  the key of the id in the context with the empty string.
\<close>

theorem context_holds_empty_values:
  "PathParameters exampleRequest = Map.empty \<and>
   addToContext Map.empty (lambdaContextVals exampleExtern zeroLambdaParams exampleRequest)
       ''pathParams'' = Some (AnyMap Map.empty) \<and>
   Body (fst (fst (InjectLambdaContextMW_part_000 exampleExtern (contextProbe ''pathParams'')
       Map.empty exampleRequest []))) = ''map'' \<and>
   GetID zeroLambdaParams = '''' \<and>
   Body (fst (fst (InjectLambdaContextMW exampleExtern (contextProbe ''id'')
       Map.empty (exampleRequest\<lparr>ReqBody := ''''\<rparr>) []))) = ''string[]''"
proof -
  have a: "PathParameters exampleRequest = Map.empty"
    by (simp add: exampleRequest_def)
  have b: "addToContext Map.empty (lambdaContextVals exampleExtern zeroLambdaParams exampleRequest)
       ''pathParams'' = Some (AnyMap Map.empty)"
    by (simp add: exampleVals)
  have c: "Body (fst (fst (InjectLambdaContextMW_part_000 exampleExtern (contextProbe ''pathParams'')
       Map.empty exampleRequest []))) = ''map''"
    by (simp add: InjectLambdaContextMW_part_000_calls_next exampleUnmarshal b contextProbe_def
        describe_def)
  have d: "GetID zeroLambdaParams = ''''"
    by (simp add: GetID_def chooseLongest_def returned_def zeroLambdaParams_def)
  have e: "Body (fst (fst (InjectLambdaContextMW exampleExtern (contextProbe ''id'')
       Map.empty (exampleRequest\<lparr>ReqBody := ''''\<rparr>) []))) = ''string[]''"
  proof -
    have kn: "keyName exampleExtern = exampleKeyName"
      by (simp add: exampleExtern_def)
    show ?thesis
      by (simp add: InjectLambdaContextMW_def exampleUnmarshal contextProbe_def describe_def d
          kn exampleKeyName_def)
  qed
  from a b c d e show ?thesis by simp
qed

text \<open>
  Claim C9, amended. \<open>addToContext\<close> stores an entry exactly when its value is neither the
  \<open>nil\<close> interface nor the empty string: a key whose value is the empty string is left as
  the context had it, every other string and every map, with or without entries, is stored
  under its key; so whatever \<open>addToContext\<close> adds is not \<open>nil\<close> and not the empty string.
  \<open>InjectLambdaContextMW\<close> of src/unnamed/part_000 hands the next handler the context built
  this way from its nine entries.
\<close>

theorem addToContext_stores_what_is_not_empty_string:
  assumes "distinct (map fst vals)" and "(k, v) \<in> set vals"
  shows "(isNil v \<or> v = AnyString '''' \<longrightarrow> addToContext ctx vals k = ctx k) \<and>
         (\<not> isNil v \<and> v \<noteq> AnyString '''' \<longrightarrow> addToContext ctx vals k = Some v) \<and>
         (\<forall>k' v'. addToContext ctx vals k' = Some v' \<longrightarrow>
            ctx k' = Some v' \<or> ((k', v') \<in> set vals \<and> \<not> isNil v' \<and> v' \<noteq> AnyString '''')) \<and>
         InjectLambdaContextMW_part_000 E next ctx req lg
           = next (addToContext ctx (lambdaContextVals E (fst (UnmarshalReq E req True)) req)) req lg"
proof (intro conjI allI impI)
  from assms have m: "map_of vals k = Some v"
    by simp
  note l = addToContext_lookup [OF assms(1), of ctx k, unfolded m, simplified]
  show "addToContext ctx vals k = ctx k" if "isNil v \<or> v = AnyString []"
    using that l by auto
  show "addToContext ctx vals k = Some v" if "\<not> isNil v \<and> v \<noteq> AnyString []"
    using that l by auto
  show "ctx k' = Some v' \<or> ((k', v') \<in> set vals \<and> \<not> isNil v' \<and> v' \<noteq> AnyString [])"
    if "addToContext ctx vals k' = Some v'" for k' v'
    using addToContext_added [OF that] .
  show "InjectLambdaContextMW_part_000 E next ctx req lg
           = next (addToContext ctx (lambdaContextVals E (fst (UnmarshalReq E req True)) req)) req lg"
    by (rule InjectLambdaContextMW_part_000_calls_next)
qed

theorem addToContext_stores_what_is_not_empty_string_witness:
  "distinct (map fst (lambdaContextVals exampleExtern zeroLambdaParams exampleRequest)) \<and>
   (''pathParams'', AnyMap Map.empty)
     \<in> set (lambdaContextVals exampleExtern zeroLambdaParams exampleRequest) \<and>
   (''id'', AnyString '''') \<in> set (lambdaContextVals exampleExtern zeroLambdaParams exampleRequest) \<and>
   addToContext Map.empty (lambdaContextVals exampleExtern zeroLambdaParams exampleRequest)
     ''pathParams'' = Some (AnyMap Map.empty) \<and>
   addToContext Map.empty (lambdaContextVals exampleExtern zeroLambdaParams exampleRequest)
     ''id'' = None"
proof -
  let ?vals = "lambdaContextVals exampleExtern zeroLambdaParams exampleRequest"
  have d: "distinct (map fst ?vals)"
    by (simp add: exampleVals)
  have p: "(''pathParams'', AnyMap Map.empty) \<in> set ?vals"
    and i: "(''id'', AnyString '''') \<in> set ?vals"
    by (simp_all add: exampleVals)
  from addToContext_stores_what_is_not_empty_string [OF d p, of Map.empty exampleExtern
      exampleNext exampleRequest "[]"]
  have a: "addToContext Map.empty ?vals ''pathParams'' = Some (AnyMap Map.empty)"
    by simp
  from addToContext_stores_what_is_not_empty_string [OF d i, of Map.empty exampleExtern
      exampleNext exampleRequest "[]"]
  have b: "addToContext Map.empty ?vals ''id'' = None"
    by simp
  from a b d p i show ?thesis by simp
qed

end
